theory Spec2Isabelle
  imports Complex_Main "HOL-Library.Sublist"
begin

text \<open>
  A shallow embedding of the custom LLM endpoint slice of the repository: the parsers of the
  compound model reference, the credential store over the table \<open>custom_llm_endpoints\<close>,
  the endpoint resolver, the request dispatcher \<open>executeProviderRequest\<close> and the HTTP
  routes of one endpoint. Asynchronous functions are modelled by the values they settle to:
  a rejection or a thrown error is a value (\<open>Inl\<close>, or \<open>None\<close> for an opaque service), the
  table and the log are passed and returned explicitly. Functions that the slice imports
  from modules outside it are parameters of the model. The first part holds the
  definitions, the second the properties proved of them.
\<close>

section \<open>Model-identifier parser\<close>

text \<open>
  The compound model reference \<open>custom-{family}:{endpoint-name}/{model-name}\<close> is decoded by
  one small function per family. Each of them uses three string primitives of JavaScript,
  which are written out here on \<open>string\<close> (a list of characters; the separator \<open>/\<close> and the
  prefixes are ASCII, so one list element per UTF-16 code unit is adequate).
\<close>

text \<open>\<open>s.indexOf(c)\<close> for a one-character needle: the first position of \<open>c\<close>, or \<open>-1\<close>.\<close>

primrec indexOf :: "string \<Rightarrow> char \<Rightarrow> int" where
  "indexOf [] c = - 1"
| "indexOf (x # xs) c =
     (if x = c then 0 else (let i = indexOf xs c in if i = - 1 then - 1 else i + 1))"

text \<open>
  \<open>s.slice(a, b)\<close> and \<open>s.slice(a)\<close>: a negative index counts from the end, and both
  indices are clamped to the string.
\<close>

definition sliceIndex :: "string \<Rightarrow> int \<Rightarrow> int" where
  "sliceIndex s i = (let n = int (length s) in if i < 0 then max (n + i) 0 else min i n)"

definition slice :: "string \<Rightarrow> int \<Rightarrow> int \<Rightarrow> string" where
  "slice s a b = (let from = sliceIndex s a; to = sliceIndex s b
                  in take (nat (to - from)) (drop (nat from) s))"

definition sliceFrom :: "string \<Rightarrow> int \<Rightarrow> string" where
  "sliceFrom s a = slice s a (int (length s))"

text \<open>
  \<open>s.replace(/^p/, '')\<close> for a literal pattern \<open>p\<close> anchored at the start: the prefix is
  removed once when the string starts with it.
\<close>

definition replaceAtStart :: "string \<Rightarrow> string \<Rightarrow> string" where
  "replaceAtStart p s = (if take (length p) s = p then drop (length p) s else s)"

record parsed_model =
  endpointName :: string
  modelName :: string

text \<open>\<open>parseCustomAnthropicModel\<close> of \<open>providers/custom-anthropic/utils.ts\<close>.\<close>

definition parseCustomAnthropicModel :: "string \<Rightarrow> parsed_model" where
  "parseCustomAnthropicModel model =
     (let withoutPrefix = replaceAtStart ''custom-anthropic:'' model;
          slashIndex = indexOf withoutPrefix CHR ''/''
      in if slashIndex = - 1 then \<lparr>endpointName = '''', modelName = withoutPrefix\<rparr>
         else \<lparr>endpointName = slice withoutPrefix 0 slashIndex,
               modelName = sliceFrom withoutPrefix (slashIndex + 1)\<rparr>)"

text \<open>\<open>parseCustomGoogleModel\<close> of \<open>providers/custom-google/utils.ts\<close>.\<close>

definition parseCustomGoogleModel :: "string \<Rightarrow> parsed_model" where
  "parseCustomGoogleModel model =
     (let withoutPrefix = replaceAtStart ''custom-google:'' model;
          slashIndex = indexOf withoutPrefix CHR ''/''
      in if slashIndex = - 1 then \<lparr>endpointName = '''', modelName = withoutPrefix\<rparr>
         else \<lparr>endpointName = slice withoutPrefix 0 slashIndex,
               modelName = sliceFrom withoutPrefix (slashIndex + 1)\<rparr>)"

text \<open>
  Modelled from the spec: \<open>parseCustomOpenAIModel\<close> (imported by the dispatcher from
  \<open>providers/custom-openai\<close>, a file that is not part of the reviewed sources). The spec's
  parser contract (section 4.1) is the same for the three families: strip the family prefix
  if present, split on the first \<open>/\<close>, an absent \<open>/\<close> gives the empty endpoint name.
\<close>

definition parseCustomOpenAIModel :: "string \<Rightarrow> parsed_model" where
  "parseCustomOpenAIModel model =
     (let withoutPrefix = replaceAtStart ''custom-openai:'' model;
          slashIndex = indexOf withoutPrefix CHR ''/''
      in if slashIndex = - 1 then \<lparr>endpointName = '''', modelName = withoutPrefix\<rparr>
         else \<lparr>endpointName = slice withoutPrefix 0 slashIndex,
               modelName = sliceFrom withoutPrefix (slashIndex + 1)\<rparr>)"

text \<open>The three families, their prefixes and their parsers.\<close>

datatype family = CustomOpenAI | CustomAnthropic | CustomGoogle

fun familyPrefix :: "family \<Rightarrow> string" where
  "familyPrefix CustomOpenAI = ''custom-openai''"
| "familyPrefix CustomAnthropic = ''custom-anthropic''"
| "familyPrefix CustomGoogle = ''custom-google''"

fun parseFamily :: "family \<Rightarrow> string \<Rightarrow> parsed_model" where
  "parseFamily CustomOpenAI = parseCustomOpenAIModel"
| "parseFamily CustomAnthropic = parseCustomAnthropicModel"
| "parseFamily CustomGoogle = parseCustomGoogleModel"

section \<open>External services of the credential store\<close>

text \<open>
  The store consumes the encryption primitive and the JSON codec as opaque services. A call
  that throws is the value \<open>None\<close>. A header mapping (\<open>Record<string, string>\<close>) is a
  list of name/value pairs in the object's key order; \<open>Object.keys\<close> reads the names.
\<close>

type_synonym headers = "(string \<times> string) list"

definition objectKeys :: "headers \<Rightarrow> string list" where
  "objectKeys h = map fst h"

record services =
  encryptSecret :: "string \<Rightarrow> string option"
  decryptSecret :: "string \<Rightarrow> string option"
  jsonStringify :: "headers \<Rightarrow> string"
  jsonParse :: "string \<Rightarrow> headers option"

text \<open>The logger: every call appends one entry (level and message; the context object is dropped).\<close>

datatype log_entry = LogInfo string | LogWarn string | LogError string | LogDebug string

text \<open>JavaScript truthiness of a \<open>string | null | undefined\<close>: present and not empty.\<close>

fun truthy :: "string option \<Rightarrow> bool" where
  "truthy None = False"
| "truthy (Some s) = (s \<noteq> [])"

section \<open>Data model of the credential store\<close>

datatype api_type = OpenAI | Anthropic | Google

text \<open>
  The fields shared by a stored row and by the two views of it. \<open>ident\<close> is the source's
  \<open>id\<close>; dates are points on a clock of natural numbers.
\<close>

record endpoint_fields =
  ident :: string
  workspaceId :: string
  name :: string
  baseUrl :: string
  createdBy :: "string option"
  createdAt :: nat
  updatedAt :: nat

text \<open>A row of the table \<open>custom_llm_endpoints\<close>; \<open>apiTypeColumn\<close> is the row's \<open>apiType\<close>.\<close>

record custom_llm_endpoints_row = endpoint_fields +
  apiTypeColumn :: "api_type option"
  encryptedApiKey :: "string option"
  encryptedHeaders :: "string option"

record typed_endpoint_fields = endpoint_fields +
  apiType :: api_type

record CustomLlmEndpoint = typed_endpoint_fields +
  hasApiKey :: bool
  headerNames :: "string list"

record CustomLlmEndpointWithCredentials = typed_endpoint_fields +
  apiKey :: "string option"
  headers :: "headers option"

text \<open>\<open>endpoint.apiType || 'openai'\<close>\<close>

fun apiTypeOrDefault :: "api_type option \<Rightarrow> api_type" where
  "apiTypeOrDefault None = OpenAI"
| "apiTypeOrDefault (Some t) = t"

section \<open>The relational store\<close>

text \<open>
  The table is the list of its rows. The primary key on \<open>id\<close> and the unique index
  \<open>custom_llm_endpoint_workspace_name\<close> on \<open>(workspace_id, name)\<close> of the migration are
  checked by every insert and update, which fail with the violated constraint's name.
  Connection failures of the database and the foreign keys into tables outside this slice
  are not part of the model.
\<close>

type_synonym db = "custom_llm_endpoints_row list"

datatype store_error =
    UniqueViolation string
  | EncryptionFailure
  | EndpointNotFound string

fun errorMessage :: "store_error \<Rightarrow> string" where
  "errorMessage (UniqueViolation c) =
     ''duplicate key value violates unique constraint \"'' @ c @ ''\"''"
| "errorMessage EncryptionFailure = ''Encryption failed''"
| "errorMessage (EndpointNotFound i) = ''Endpoint with ID '' @ i @ '' not found''"

definition primaryKey :: "db \<Rightarrow> bool" where
  "primaryKey d = distinct (map ident d)"

definition uniqueWorkspaceName :: "db \<Rightarrow> bool" where
  "uniqueWorkspaceName d = distinct (map (\<lambda>r. (workspaceId r, name r)) d)"

definition constraintViolation :: "db \<Rightarrow> store_error option" where
  "constraintViolation d =
     (if \<not> primaryKey d then Some (UniqueViolation ''custom_llm_endpoints_pkey'')
      else if \<not> uniqueWorkspaceName d
           then Some (UniqueViolation ''custom_llm_endpoint_workspace_name'')
      else None)"

text \<open>
  \<open>db.insert(customLlmEndpoints).values(row).returning()\<close>: the new table and the one row
  that \<open>returning()\<close> yields.
\<close>

definition dbInsert ::
  "db \<Rightarrow> custom_llm_endpoints_row \<Rightarrow> store_error + (db \<times> custom_llm_endpoints_row)" where
  "dbInsert d r =
     (case constraintViolation (d @ [r]) of
        Some e \<Rightarrow> Inl e
      | None \<Rightarrow> Inr (d @ [r], r))"

text \<open>\<open>db.update(customLlmEndpoints).set(updates).where(eq(id, endpointId)).returning()\<close>\<close>

definition dbUpdate ::
  "db \<Rightarrow> string \<Rightarrow> (custom_llm_endpoints_row \<Rightarrow> custom_llm_endpoints_row) \<Rightarrow>
   store_error + (db \<times> custom_llm_endpoints_row list)" where
  "dbUpdate d endpointId updates =
     (let d' = map (\<lambda>r. if ident r = endpointId then updates r else r) d
      in case constraintViolation d' of
           Some e \<Rightarrow> Inl e
         | None \<Rightarrow> Inr (d', filter (\<lambda>r. ident r = endpointId) d'))"

text \<open>\<open>db.delete(customLlmEndpoints).where(eq(id, endpointId))\<close>\<close>

definition dbDelete :: "db \<Rightarrow> string \<Rightarrow> db" where
  "dbDelete d endpointId = filter (\<lambda>r. ident r \<noteq> endpointId) d"

text \<open>The two selects of the store, each with \<open>.limit(1)\<close>.\<close>

definition selectByWorkspaceAndName ::
  "db \<Rightarrow> string \<Rightarrow> string \<Rightarrow> custom_llm_endpoints_row list" where
  "selectByWorkspaceAndName d ws n =
     take 1 (filter (\<lambda>r. workspaceId r = ws \<and> name r = n) d)"

definition selectById :: "db \<Rightarrow> string \<Rightarrow> custom_llm_endpoints_row list" where
  "selectById d endpointId = take 1 (filter (\<lambda>r. ident r = endpointId) d)"

section \<open>Endpoint resolver\<close>

text \<open>
  The block \<open>if (endpoint.encryptedApiKey) { try { apiKey = decrypt } catch { log } }\<close>:
  the decrypted key, or \<open>None\<close> with one error entry when decryption throws.
\<close>

definition decryptApiKeyOrLog ::
  "services \<Rightarrow> string \<Rightarrow> string option \<Rightarrow> string option \<times> log_entry list" where
  "decryptApiKeyOrLog svc message stored =
     (case stored of
        None \<Rightarrow> (None, [])
      | Some encrypted \<Rightarrow>
          if encrypted = [] then (None, [])
          else (case decryptSecret svc encrypted of
                  Some decrypted \<Rightarrow> (Some decrypted, [])
                | None \<Rightarrow> (None, [LogError message])))"

text \<open>
  The block \<open>if (endpoint.encryptedHeaders) { try { headers = JSON.parse(decrypt) } catch
  { log } }\<close>: both the decryption and the parse are inside the \<open>try\<close>.
\<close>

definition decryptHeadersOrLog ::
  "services \<Rightarrow> string \<Rightarrow> string option \<Rightarrow> headers option \<times> log_entry list" where
  "decryptHeadersOrLog svc message stored =
     (case stored of
        None \<Rightarrow> (None, [])
      | Some encrypted \<Rightarrow>
          if encrypted = [] then (None, [])
          else (case decryptSecret svc encrypted of
                  None \<Rightarrow> (None, [LogError message])
                | Some decrypted \<Rightarrow>
                    (case jsonParse svc decrypted of
                       None \<Rightarrow> (None, [LogError message])
                     | Some parsed \<Rightarrow> (Some parsed, []))))"

definition withCredentials ::
  "custom_llm_endpoints_row \<Rightarrow> string option \<Rightarrow> headers option \<Rightarrow>
   CustomLlmEndpointWithCredentials" where
  "withCredentials endpoint key hdrs =
     \<lparr>ident = ident endpoint, workspaceId = workspaceId endpoint, name = name endpoint,
      baseUrl = baseUrl endpoint, createdBy = createdBy endpoint,
      createdAt = createdAt endpoint, updatedAt = updatedAt endpoint,
      apiType = apiTypeOrDefault (apiTypeColumn endpoint),
      apiKey = key, headers = hdrs\<rparr>"

definition getCustomEndpointByName ::
  "services \<Rightarrow> db \<Rightarrow> string \<Rightarrow> string \<Rightarrow>
   CustomLlmEndpointWithCredentials option \<times> log_entry list" where
  "getCustomEndpointByName svc d ws n =
     (case selectByWorkspaceAndName d ws n of
        [] \<Rightarrow> (None, [])
      | endpoint # _ \<Rightarrow>
          (let (key, log1) =
                 decryptApiKeyOrLog svc ''Failed to decrypt API key for endpoint''
                   (encryptedApiKey endpoint);
               (hdrs, log2) =
                 decryptHeadersOrLog svc ''Failed to decrypt headers for endpoint''
                   (encryptedHeaders endpoint)
           in (Some (withCredentials endpoint key hdrs), log1 @ log2)))"

definition getCustomEndpointById ::
  "services \<Rightarrow> db \<Rightarrow> string \<Rightarrow> CustomLlmEndpointWithCredentials option \<times> log_entry list" where
  "getCustomEndpointById svc d endpointId =
     (case selectById d endpointId of
        [] \<Rightarrow> (None, [])
      | endpoint # _ \<Rightarrow>
          (let (key, log1) =
                 decryptApiKeyOrLog svc ''Failed to decrypt API key for endpoint''
                   (encryptedApiKey endpoint);
               (hdrs, log2) =
                 decryptHeadersOrLog svc ''Failed to decrypt headers for endpoint''
                   (encryptedHeaders endpoint)
           in (Some (withCredentials endpoint key hdrs), log1 @ log2)))"

section \<open>Credential store: create, update, delete, name availability\<close>

record CreateCustomEndpointParams =
  newId :: string
  newWorkspaceId :: string
  newName :: string
  newBaseUrl :: string
  newApiType :: "api_type option"
  newApiKey :: "string option"
  newHeaders :: "headers option"
  newCreatedBy :: string

text \<open>
  Lines 251 to 255 of \<open>createCustomEndpoint\<close>: \<open>if (params.apiKey)\<close> encrypts a key that
  is present and not the empty string.
\<close>

definition encryptApiKeyParam :: "services \<Rightarrow> string option \<Rightarrow> store_error + string option" where
  "encryptApiKeyParam svc key =
     (case key of
        None \<Rightarrow> Inr None
      | Some k \<Rightarrow>
          if k = [] then Inr None
          else (case encryptSecret svc k of
                  None \<Rightarrow> Inl EncryptionFailure
                | Some encrypted \<Rightarrow> Inr (Some encrypted)))"

text \<open>
  Lines 257 to 263: \<open>if (params.headers && Object.keys(params.headers).length > 0)\<close>
  encrypts the whole mapping as one JSON text and takes the header names from the input.
\<close>

definition encryptHeadersParam ::
  "services \<Rightarrow> headers option \<Rightarrow> store_error + (string option \<times> string list)" where
  "encryptHeadersParam svc hs =
     (case hs of
        None \<Rightarrow> Inr (None, [])
      | Some h \<Rightarrow>
          if length (objectKeys h) > 0
          then (case encryptSecret svc (jsonStringify svc h) of
                  None \<Rightarrow> Inl EncryptionFailure
                | Some encrypted \<Rightarrow> Inr (Some encrypted, objectKeys h))
          else Inr (None, []))"

text \<open>
  \<open>createCustomEndpoint\<close>: the result and the new table on success, the error otherwise (the
  table is then unchanged), with the log entries written on the way. \<open>now\<close> is the value of
  \<open>new Date()\<close>.
\<close>

definition createCustomEndpoint ::
  "services \<Rightarrow> nat \<Rightarrow> db \<Rightarrow> CreateCustomEndpointParams \<Rightarrow>
   (store_error + (CustomLlmEndpoint \<times> db)) \<times> log_entry list" where
  "createCustomEndpoint svc now d params =
     (case encryptApiKeyParam svc (newApiKey params) of
        Inl e \<Rightarrow> (Inl e, [LogError ''Failed to create custom endpoint''])
      | Inr encApiKey \<Rightarrow>
          (case encryptHeadersParam svc (newHeaders params) of
             Inl e \<Rightarrow> (Inl e, [LogError ''Failed to create custom endpoint''])
           | Inr (encHeaders, hdrNames) \<Rightarrow>
               (case dbInsert d
                       \<lparr>ident = newId params, workspaceId = newWorkspaceId params,
                        name = newName params, baseUrl = newBaseUrl params,
                        createdBy = Some (newCreatedBy params),
                        createdAt = now, updatedAt = now,
                        apiTypeColumn = Some (apiTypeOrDefault (newApiType params)),
                        encryptedApiKey = encApiKey, encryptedHeaders = encHeaders\<rparr> of
                  Inl e \<Rightarrow> (Inl e, [LogError ''Failed to create custom endpoint''])
                | Inr (d', newEndpoint) \<Rightarrow>
                    (Inr (\<lparr>ident = ident newEndpoint, workspaceId = workspaceId newEndpoint,
                           name = name newEndpoint, baseUrl = baseUrl newEndpoint,
                           createdBy = createdBy newEndpoint,
                           createdAt = createdAt newEndpoint,
                           updatedAt = updatedAt newEndpoint,
                           apiType = apiTypeOrDefault (apiTypeColumn newEndpoint),
                           hasApiKey = truthy encApiKey, headerNames = hdrNames\<rparr>, d'),
                     [LogInfo ''Created custom LLM endpoint'']))))"

text \<open>
  A field of the update payload that can be omitted (\<open>None\<close>, JavaScript's \<open>undefined\<close>),
  \<open>null\<close> or a value.
\<close>

datatype 'a nullable = Null | Value 'a

record UpdateCustomEndpointParams =
  setName :: "string option"
  setBaseUrl :: "string option"
  setApiKey :: "string nullable option"
  setHeaders :: "headers nullable option"

text \<open>
  Lines 334 to 341 of \<open>updateCustomEndpoint\<close>: the entry \<open>updates.encryptedApiKey\<close>, absent
  (\<open>None\<close>) when the payload omits the key.
\<close>

definition encryptApiKeyUpdate ::
  "services \<Rightarrow> string nullable option \<Rightarrow> store_error + string option option" where
  "encryptApiKeyUpdate svc key =
     (case key of
        None \<Rightarrow> Inr None
      | Some Null \<Rightarrow> Inr (Some None)
      | Some (Value k) \<Rightarrow>
          (case encryptSecret svc k of
             None \<Rightarrow> Inl EncryptionFailure
           | Some encrypted \<Rightarrow> Inr (Some (Some encrypted))))"

text \<open>
  Lines 343 to 356: the entry \<open>updates.encryptedHeaders\<close> and the local \<open>headerNames\<close>, both
  absent when the payload omits the headers.
\<close>

definition encryptHeadersUpdate ::
  "services \<Rightarrow> headers nullable option \<Rightarrow>
   store_error + (string option option \<times> string list option)" where
  "encryptHeadersUpdate svc hs =
     (case hs of
        None \<Rightarrow> Inr (None, None)
      | Some Null \<Rightarrow> Inr (Some None, Some [])
      | Some (Value h) \<Rightarrow>
          if length (objectKeys h) > 0
          then (case encryptSecret svc (jsonStringify svc h) of
                  None \<Rightarrow> Inl EncryptionFailure
                | Some encrypted \<Rightarrow> Inr (Some (Some encrypted), Some (objectKeys h)))
          else Inr (Some None, Some []))"

text \<open>The object \<open>updates\<close> applied to a row by \<open>.set(updates)\<close>: absent entries keep the column.\<close>

definition applyUpdates ::
  "nat \<Rightarrow> string option \<Rightarrow> string option \<Rightarrow> string option option \<Rightarrow> string option option \<Rightarrow>
   custom_llm_endpoints_row \<Rightarrow> custom_llm_endpoints_row" where
  "applyUpdates now newN newUrl newKey newHdrs r =
     r\<lparr>updatedAt := now,
       name := (case newN of None \<Rightarrow> name r | Some n \<Rightarrow> n),
       baseUrl := (case newUrl of None \<Rightarrow> baseUrl r | Some u \<Rightarrow> u),
       encryptedApiKey := (case newKey of None \<Rightarrow> encryptedApiKey r | Some k \<Rightarrow> k),
       encryptedHeaders := (case newHdrs of None \<Rightarrow> encryptedHeaders r | Some h \<Rightarrow> h)\<rparr>"

text \<open>
  Lines 368 to 381 and the \<open>headerNames ?? []\<close> of the result: when the payload left the
  headers alone and the row has a blob, the names are recovered by decrypting it.
\<close>

definition recoverHeaderNames ::
  "services \<Rightarrow> string list option \<Rightarrow> string option \<Rightarrow> string list \<times> log_entry list" where
  "recoverHeaderNames svc hdrNames stored =
     (case hdrNames of
        Some names \<Rightarrow> (names, [])
      | None \<Rightarrow>
          if truthy stored
          then (case Option.bind (Option.bind stored (decryptSecret svc)) (jsonParse svc) of
                  Some parsed \<Rightarrow> (objectKeys parsed, [])
                | None \<Rightarrow> ([], [LogError ''Failed to decrypt headers for updated endpoint'']))
          else ([], []))"

definition updateCustomEndpoint ::
  "services \<Rightarrow> nat \<Rightarrow> db \<Rightarrow> string \<Rightarrow> UpdateCustomEndpointParams \<Rightarrow>
   (store_error + (CustomLlmEndpoint \<times> db)) \<times> log_entry list" where
  "updateCustomEndpoint svc now d endpointId params =
     (case encryptApiKeyUpdate svc (setApiKey params) of
        Inl e \<Rightarrow> (Inl e, [LogError ''Failed to update custom endpoint''])
      | Inr newKey \<Rightarrow>
          (case encryptHeadersUpdate svc (setHeaders params) of
             Inl e \<Rightarrow> (Inl e, [LogError ''Failed to update custom endpoint''])
           | Inr (newHdrs, hdrNames) \<Rightarrow>
               (case dbUpdate d endpointId
                       (applyUpdates now (setName params) (setBaseUrl params) newKey newHdrs) of
                  Inl e \<Rightarrow> (Inl e, [LogError ''Failed to update custom endpoint''])
                | Inr (d', []) \<Rightarrow>
                    (Inl (EndpointNotFound endpointId),
                     [LogError ''Failed to update custom endpoint''])
                | Inr (d', updatedEndpoint # _) \<Rightarrow>
                    (let (names, log1) =
                           recoverHeaderNames svc hdrNames (encryptedHeaders updatedEndpoint)
                     in (Inr (\<lparr>ident = ident updatedEndpoint,
                                workspaceId = workspaceId updatedEndpoint,
                                name = name updatedEndpoint,
                                baseUrl = baseUrl updatedEndpoint,
                                createdBy = createdBy updatedEndpoint,
                                createdAt = createdAt updatedEndpoint,
                                updatedAt = updatedAt updatedEndpoint,
                                apiType = apiTypeOrDefault (apiTypeColumn updatedEndpoint),
                                hasApiKey = truthy (encryptedApiKey updatedEndpoint),
                                headerNames = names\<rparr>, d'),
                         log1 @ [LogInfo ''Updated custom LLM endpoint''])))))"

definition deleteCustomEndpoint :: "db \<Rightarrow> string \<Rightarrow> db \<times> log_entry list" where
  "deleteCustomEndpoint d endpointId =
     (dbDelete d endpointId, [LogInfo ''Deleted custom LLM endpoint''])"

definition isEndpointNameAvailable :: "db \<Rightarrow> string \<Rightarrow> string \<Rightarrow> string option \<Rightarrow> bool" where
  "isEndpointNameAvailable d ws n excludeId =
     (case selectByWorkspaceAndName d ws n of
        [] \<Rightarrow> True
      | r # _ \<Rightarrow> if truthy excludeId \<and> Some (ident r) = excludeId then True else False)"

section \<open>Request dispatcher\<close>

text \<open>
  The fields of \<open>ProviderRequest\<close> and \<open>ProviderResponse\<close> that the dispatcher reads or writes
  (the spread \<open>{ ...request }\<close> copies every other field unchanged). \<open>requestWorkspaceId\<close>,
  \<open>requestApiKey\<close> and \<open>requestContext\<close> are the request's \<open>workspaceId\<close>, \<open>apiKey\<close> and
  \<open>context\<close>; \<open>responseModel\<close> is the response's \<open>model\<close>. Numbers that are only stored are
  reals; token counts are naturals.
\<close>

text \<open>
  A response format is tested with \<open>typeof ... === 'string'\<close>: it is a string or an object
  (whose content, opaque here, is carried as text).
\<close>

datatype response_format = FormatString string | FormatObject string

fun formatTruthy :: "response_format \<Rightarrow> bool" where
  "formatTruthy (FormatString s) = (s \<noteq> [])"
| "formatTruthy (FormatObject _) = True"

record ProviderRequest =
  model :: string
  requestWorkspaceId :: "string option"
  requestApiKey :: "string option"
  temperature :: "real option"
  systemPrompt :: "string option"
  responseFormat :: "response_format option"
  requestContext :: "string option"
  isBYOK :: "bool option"
  customOpenaiBaseUrl :: "string option"
  customOpenaiEndpointName :: "string option"
  customOpenaiHeaders :: "headers option"
  customAnthropicBaseUrl :: "string option"
  customAnthropicEndpointName :: "string option"
  customAnthropicHeaders :: "headers option"
  customGoogleBaseUrl :: "string option"
  customGoogleEndpointName :: "string option"
  customGoogleHeaders :: "headers option"

record token_usage =
  tokensInput :: "nat option"
  tokensOutput :: "nat option"

record pricing =
  pricingInput :: real
  pricingOutput :: real
  pricingUpdatedAt :: string

record cost =
  costInput :: real
  costOutput :: real
  costTotal :: real
  costPricing :: pricing

record ProviderResponse =
  responseModel :: string
  tokens :: "token_usage option"
  responseCost :: "cost option"

text \<open>What a provider's \<open>executeRequest\<close> resolves to; the streams are opaque.\<close>

datatype provider_output =
    StreamingExecution nat
  | ReadableStream nat
  | Response ProviderResponse

text \<open>A provider of the registry; \<open>Inl\<close> of an executor is the message of the error it throws.\<close>

record provider_config =
  executeRequest :: "(ProviderRequest \<Rightarrow> string + provider_output) option"

text \<open>
  The collaborators the dispatcher imports from modules outside this slice: the provider
  registry, the bring-your-own-key resolution, and the helpers of \<open>providers/utils\<close> and of
  the feature flags. \<open>isoNow\<close> is \<open>new Date().toISOString()\<close>.
\<close>

record collaborators =
  getProviderExecutor :: "string \<Rightarrow> provider_config option"
  supportsTemperature :: "string \<Rightarrow> bool"
  getApiKeyWithBYOK :: "string \<Rightarrow> string \<Rightarrow> string \<Rightarrow> string option \<Rightarrow> string + (string \<times> bool)"
  generateStructuredOutputInstructions :: "response_format \<Rightarrow> string"
  shouldBillModelUsage :: "string \<Rightarrow> bool"
  getCostMultiplier :: real
  calculateCost :: "string \<Rightarrow> nat \<Rightarrow> nat \<Rightarrow> bool \<Rightarrow> real \<Rightarrow> real \<Rightarrow> cost"
  isoNow :: string

text \<open>\<open>x || ''\<close> on an optional string.\<close>

fun orEmpty :: "string option \<Rightarrow> string" where
  "orEmpty None = []"
| "orEmpty (Some s) = s"

text \<open>
  \<open>String.prototype.trim\<close>. A character of a text is a code unit below 256. Of these,
  ECMAScript's white space and line terminators are the tab, the line feed, the vertical
  tab, the form feed, the carriage return, the space and the no-break space \<open>U+00A0\<close>; the
  others that \<open>trim\<close> strips (\<open>U+1680\<close>, \<open>U+2000\<close> to \<open>U+200A\<close>, \<open>U+2028\<close>, \<open>U+2029\<close>,
  \<open>U+202F\<close>, \<open>U+205F\<close>, \<open>U+3000\<close>, \<open>U+FEFF\<close>) lie above this range.
\<close>

definition isWhiteSpace :: "char \<Rightarrow> bool" where
  "isWhiteSpace c =
     (c \<in> set [CHR 0x09, CHR 0x0A, CHR 0x0B, CHR 0x0C, CHR 0x0D, CHR 0x20, CHR 0xA0])"

definition trim :: "string \<Rightarrow> string" where
  "trim s = rev (dropWhile isWhiteSpace (rev (dropWhile isWhiteSpace s)))"

definition sanitizeRequest :: "collaborators \<Rightarrow> ProviderRequest \<Rightarrow> ProviderRequest" where
  "sanitizeRequest env request =
     (if model request \<noteq> [] \<and> \<not> supportsTemperature env (model request)
      then request\<lparr>temperature := None\<rparr>
      else request)"

definition endpointNotFoundMessage :: "string \<Rightarrow> string" where
  "endpointNotFoundMessage n =
     ''Custom LLM endpoint \"'' @ n @ ''\" not found. Please configure it in workspace settings.''"

text \<open>\<open>endpointConfig.apiKey || 'empty'\<close>\<close>

definition apiKeyOrEmptySentinel :: "string option \<Rightarrow> string" where
  "apiKeyOrEmptySentinel k = (if truthy k then orEmpty k else ''empty'')"

text \<open>
  Lines 139 to 250 of \<open>executeProviderRequest\<close>: the branch on the provider id. The result
  is the request with the resolved fields merged in and the local \<open>isBYOK\<close>, or the message
  of the error that is thrown. The log entries of the resolver are dropped.
\<close>

definition resolveCredentials ::
  "collaborators \<Rightarrow> services \<Rightarrow> db \<Rightarrow> string \<Rightarrow> ProviderRequest \<Rightarrow> ProviderRequest \<Rightarrow>
   string + (ProviderRequest \<times> bool)" where
  "resolveCredentials env svc d providerId request resolvedRequest =
     (if providerId = ''custom-openai'' \<and> truthy (requestWorkspaceId request) then
        (let n = endpointName (parseCustomOpenAIModel (model request))
         in if n \<noteq> [] then
              (case fst (getCustomEndpointByName svc d (orEmpty (requestWorkspaceId request)) n) of
                 None \<Rightarrow> Inl (endpointNotFoundMessage n)
               | Some endpointConfig \<Rightarrow>
                   Inr (resolvedRequest
                          \<lparr>customOpenaiBaseUrl := Some (baseUrl endpointConfig),
                           customOpenaiEndpointName := Some (name endpointConfig),
                           customOpenaiHeaders := headers endpointConfig,
                           requestApiKey := Some (apiKeyOrEmptySentinel (apiKey endpointConfig))\<rparr>,
                        False))
            else Inr (resolvedRequest, False))
      else if providerId = ''custom-anthropic'' \<and> truthy (requestWorkspaceId request) then
        (let n = endpointName (parseCustomAnthropicModel (model request))
         in if n \<noteq> [] then
              (case fst (getCustomEndpointByName svc d (orEmpty (requestWorkspaceId request)) n) of
                 None \<Rightarrow> Inl (endpointNotFoundMessage n)
               | Some endpointConfig \<Rightarrow>
                   Inr (resolvedRequest
                          \<lparr>customAnthropicBaseUrl := Some (baseUrl endpointConfig),
                           customAnthropicEndpointName := Some (name endpointConfig),
                           customAnthropicHeaders := headers endpointConfig,
                           requestApiKey := Some (apiKeyOrEmptySentinel (apiKey endpointConfig))\<rparr>,
                        False))
            else Inr (resolvedRequest, False))
      else if providerId = ''custom-google'' \<and> truthy (requestWorkspaceId request) then
        (let n = endpointName (parseCustomGoogleModel (model request))
         in if n \<noteq> [] then
              (case fst (getCustomEndpointByName svc d (orEmpty (requestWorkspaceId request)) n) of
                 None \<Rightarrow> Inl (endpointNotFoundMessage n)
               | Some endpointConfig \<Rightarrow>
                   Inr (resolvedRequest
                          \<lparr>customGoogleBaseUrl := Some (baseUrl endpointConfig),
                           customGoogleEndpointName := Some (name endpointConfig),
                           customGoogleHeaders := headers endpointConfig,
                           requestApiKey := Some (apiKeyOrEmptySentinel (apiKey endpointConfig))\<rparr>,
                        False))
            else Inr (resolvedRequest, False))
      else if truthy (requestWorkspaceId request) then
        (case getApiKeyWithBYOK env providerId (model request)
                (orEmpty (requestWorkspaceId request)) (requestApiKey request) of
           Inl e \<Rightarrow> Inl e
         | Inr (key, byok) \<Rightarrow> Inr (resolvedRequest\<lparr>requestApiKey := Some key\<rparr>, byok))
      else Inr (resolvedRequest, False))"

text \<open>
  Lines 255 to 275: the structured-output step. The outer test is the truthiness of
  \<open>responseFormat\<close>; the test for the empty string is nested inside it.
\<close>

definition applyResponseFormat :: "collaborators \<Rightarrow> ProviderRequest \<Rightarrow> ProviderRequest" where
  "applyResponseFormat env sanitizedRequest =
     (case responseFormat sanitizedRequest of
        None \<Rightarrow> sanitizedRequest
      | Some fmt \<Rightarrow>
          if formatTruthy fmt then
            (if fmt = FormatString [] then sanitizedRequest\<lparr>responseFormat := None\<rparr>
             else (let structuredOutputInstructions = generateStructuredOutputInstructions env fmt
                   in if trim structuredOutputInstructions \<noteq> [] then
                        sanitizedRequest
                          \<lparr>systemPrompt :=
                             Some (trim (orEmpty (systemPrompt sanitizedRequest)
                                         @ [CHR 0x0A, CHR 0x0A] @ structuredOutputInstructions))\<rparr>
                      else sanitizedRequest))
          else sanitizedRequest)"

text \<open>Lines 289 to 323: the cost of a response that carries token usage.\<close>

definition zeroCost :: "collaborators \<Rightarrow> cost" where
  "zeroCost env =
     \<lparr>costInput = 0, costOutput = 0, costTotal = 0,
      costPricing = \<lparr>pricingInput = 0, pricingOutput = 0, pricingUpdatedAt = isoNow env\<rparr>\<rparr>"

definition orZero :: "nat option \<Rightarrow> nat" where
  "orZero x = (case x of None \<Rightarrow> 0 | Some n \<Rightarrow> n)"

definition attachCost ::
  "collaborators \<Rightarrow> ProviderRequest \<Rightarrow> bool \<Rightarrow> ProviderResponse \<Rightarrow> ProviderResponse" where
  "attachCost env request byok response =
     (case tokens response of
        None \<Rightarrow> response
      | Some usage \<Rightarrow>
          (let promptTokens = orZero (tokensInput usage);
               completionTokens = orZero (tokensOutput usage);
               useCachedInput = truthy (requestContext request);
               shouldBill = (shouldBillModelUsage env (responseModel response) \<and> \<not> byok)
           in if shouldBill then
                response\<lparr>responseCost :=
                  Some (calculateCost env (responseModel response) promptTokens completionTokens
                          useCachedInput (getCostMultiplier env) (getCostMultiplier env))\<rparr>
              else response\<lparr>responseCost := Some (zeroCost env)\<rparr>))"

text \<open>
  \<open>executeProviderRequest\<close>: what the promise settles to (\<open>Inl\<close> the message of the error it
  rejects with) and the requests handed to the provider's \<open>executeRequest\<close>, in order: the
  outbound calls.
\<close>

record dispatch_result =
  outcome :: "string + provider_output"
  outboundCalls :: "ProviderRequest list"

definition executeProviderRequest ::
  "collaborators \<Rightarrow> services \<Rightarrow> db \<Rightarrow> string \<Rightarrow> ProviderRequest \<Rightarrow> dispatch_result" where
  "executeProviderRequest env svc d providerId request =
     (case getProviderExecutor env providerId of
        None \<Rightarrow> \<lparr>outcome = Inl (''Provider not found: '' @ providerId), outboundCalls = []\<rparr>
      | Some provider \<Rightarrow>
          (case executeRequest provider of
             None \<Rightarrow>
               \<lparr>outcome = Inl (''Provider '' @ providerId @ '' does not implement executeRequest''),
                outboundCalls = []\<rparr>
           | Some exec \<Rightarrow>
               (case resolveCredentials env svc d providerId request (sanitizeRequest env request) of
                  Inl e \<Rightarrow> \<lparr>outcome = Inl e, outboundCalls = []\<rparr>
                | Inr (resolvedRequest, byok) \<Rightarrow>
                    (let sanitizedRequest =
                           applyResponseFormat env (resolvedRequest\<lparr>isBYOK := Some byok\<rparr>)
                     in case exec sanitizedRequest of
                          Inl e \<Rightarrow> \<lparr>outcome = Inl e, outboundCalls = [sanitizedRequest]\<rparr>
                        | Inr (StreamingExecution x) \<Rightarrow>
                            \<lparr>outcome = Inr (StreamingExecution x),
                             outboundCalls = [sanitizedRequest]\<rparr>
                        | Inr (ReadableStream x) \<Rightarrow>
                            \<lparr>outcome = Inr (ReadableStream x), outboundCalls = [sanitizedRequest]\<rparr>
                        | Inr (Response response) \<Rightarrow>
                            \<lparr>outcome = Inr (Response (attachCost env request byok response)),
                             outboundCalls = [sanitizedRequest]\<rparr>))))"

section \<open>HTTP routes of one endpoint\<close>

text \<open>
  The handlers \<open>GET\<close>, \<open>PATCH\<close> and \<open>DELETE\<close> of
  \<open>/workspaces/{id}/custom-llm-endpoints/{endpointId}\<close>. A handler reads the session's user
  id (\<open>session?.user?.id\<close>), asks \<open>getUserEntityPermissions\<close> for the user's permission on
  the workspace of the path, and answers with a status and a JSON body. The handlers'
  own log entries and those of the store are dropped.
\<close>

datatype permission = Admin | Write | Read

datatype response_body =
    ErrorBody string
  | EndpointBody CustomLlmEndpoint
  | SuccessEndpointBody CustomLlmEndpoint
  | SuccessBody

record http_response =
  status :: nat
  body :: response_body

record route_context =
  sessionUserId :: "string option"
  getUserEntityPermissions :: "string \<Rightarrow> string \<Rightarrow> permission option"

text \<open>
  What \<open>UpdateEndpointSchema.parse(await request.json())\<close> gives for the body of a
  \<open>PATCH\<close>: a validation error with its first message, another error (a body that is not
  JSON), or the parsed fields.
\<close>

datatype patch_body =
    ZodError string
  | BodyError string
  | Parsed UpdateCustomEndpointParams

definition endpointNotFound :: http_response where
  "endpointNotFound = \<lparr>status = 404, body = ErrorBody ''Endpoint not found''\<rparr>"

definition unauthorized :: http_response where
  "unauthorized = \<lparr>status = 401, body = ErrorBody ''Unauthorized''\<rparr>"

definition adminsOnly :: http_response where
  "adminsOnly =
     \<lparr>status = 403, body = ErrorBody ''Only workspace admins can manage custom LLM endpoints''\<rparr>"

definition nameTaken :: "string \<Rightarrow> http_response" where
  "nameTaken n =
     \<lparr>status = 409,
      body = ErrorBody (''An endpoint with the name \"'' @ n
                        @ ''\" already exists in this workspace'')\<rparr>"

definition GET_endpoint ::
  "route_context \<Rightarrow> services \<Rightarrow> db \<Rightarrow> string \<Rightarrow> string \<Rightarrow> http_response" where
  "GET_endpoint ctx svc d ws endpointId =
     (if \<not> truthy (sessionUserId ctx) then unauthorized
      else (case getUserEntityPermissions ctx (orEmpty (sessionUserId ctx)) ws of
              None \<Rightarrow> unauthorized
            | Some _ \<Rightarrow>
                (case fst (getCustomEndpointById svc d endpointId) of
                   None \<Rightarrow> endpointNotFound
                 | Some endpoint \<Rightarrow>
                     if workspaceId endpoint \<noteq> ws then endpointNotFound
                     else \<lparr>status = 200,
                           body = EndpointBody
                             \<lparr>ident = ident endpoint, workspaceId = workspaceId endpoint,
                              name = name endpoint, baseUrl = baseUrl endpoint,
                              createdBy = createdBy endpoint, createdAt = createdAt endpoint,
                              updatedAt = updatedAt endpoint, apiType = apiType endpoint,
                              hasApiKey = truthy (apiKey endpoint),
                              headerNames = (case headers endpoint of
                                               Some h \<Rightarrow> objectKeys h
                                             | None \<Rightarrow> [])\<rparr>\<rparr>)))"

text \<open>\<open>PATCH\<close> and \<open>DELETE\<close> also return the table they leave behind.\<close>

definition PATCH_endpoint ::
  "route_context \<Rightarrow> services \<Rightarrow> nat \<Rightarrow> db \<Rightarrow> string \<Rightarrow> string \<Rightarrow> patch_body \<Rightarrow>
   http_response \<times> db" where
  "PATCH_endpoint ctx svc now d ws endpointId requestBody =
     (if \<not> truthy (sessionUserId ctx) then (unauthorized, d)
      else if getUserEntityPermissions ctx (orEmpty (sessionUserId ctx)) ws \<noteq> Some Admin
      then (adminsOnly, d)
      else (case fst (getCustomEndpointById svc d endpointId) of
              None \<Rightarrow> (endpointNotFound, d)
            | Some existingEndpoint \<Rightarrow>
                if workspaceId existingEndpoint \<noteq> ws then (endpointNotFound, d)
                else (case requestBody of
                        ZodError message \<Rightarrow> (\<lparr>status = 400, body = ErrorBody message\<rparr>, d)
                      | BodyError message \<Rightarrow> (\<lparr>status = 500, body = ErrorBody message\<rparr>, d)
                      | Parsed params \<Rightarrow>
                          if truthy (setName params)
                             \<and> orEmpty (setName params) \<noteq> name existingEndpoint
                             \<and> \<not> isEndpointNameAvailable d ws (orEmpty (setName params))
                                   (Some endpointId)
                          then (nameTaken (orEmpty (setName params)), d)
                          else (case fst (updateCustomEndpoint svc now d endpointId params) of
                                  Inl e \<Rightarrow> (\<lparr>status = 500, body = ErrorBody (errorMessage e)\<rparr>, d)
                                | Inr (endpoint, d') \<Rightarrow>
                                    (\<lparr>status = 200, body = SuccessEndpointBody endpoint\<rparr>, d')))))"

definition DELETE_endpoint ::
  "route_context \<Rightarrow> services \<Rightarrow> db \<Rightarrow> string \<Rightarrow> string \<Rightarrow> http_response \<times> db" where
  "DELETE_endpoint ctx svc d ws endpointId =
     (if \<not> truthy (sessionUserId ctx) then (unauthorized, d)
      else if getUserEntityPermissions ctx (orEmpty (sessionUserId ctx)) ws \<noteq> Some Admin
      then (adminsOnly, d)
      else (case fst (getCustomEndpointById svc d endpointId) of
              None \<Rightarrow> (endpointNotFound, d)
            | Some existingEndpoint \<Rightarrow>
                if workspaceId existingEndpoint \<noteq> ws then (endpointNotFound, d)
                else (\<lparr>status = 200, body = SuccessBody\<rparr>,
                      fst (deleteCustomEndpoint d endpointId))))"

section \<open>Specification predicates and example data\<close>

text \<open>
  Splitting on the first \<open>/\<close> in the spec's words: with no \<open>/\<close> the endpoint name is empty
  and the whole text is the model name; otherwise the endpoint name is the text before the
  first \<open>/\<close> and the model name everything after it.
\<close>

definition splitReference :: "string \<Rightarrow> parsed_model" where
  "splitReference rest =
     (if CHR ''/'' \<in> set rest
      then \<lparr>endpointName = takeWhile (\<lambda>c. c \<noteq> CHR ''/'') rest,
            modelName = tl (dropWhile (\<lambda>c. c \<noteq> CHR ''/'') rest)\<rparr>
      else \<lparr>endpointName = '''', modelName = rest\<rparr>)"


text \<open>
  What a resolution returns for the stored row \<open>r\<close>, field by field: the record is there,
  its plain fields are the row's, the API key is the decryption of the key blob alone and the
  headers are the decryption and parse of the header blob alone (\<open>None\<close> when the blob is
  absent or empty or when its decryption fails), and an error entry is logged for exactly
  the fields whose decryption failed.
\<close>

definition resolvedAs ::
  "services \<Rightarrow> custom_llm_endpoints_row \<Rightarrow>
   CustomLlmEndpointWithCredentials option \<times> log_entry list \<Rightarrow> bool" where
  "resolvedAs svc r res =
     (\<exists>e. fst res = Some e
        \<and> ident e = ident r \<and> workspaceId e = workspaceId r \<and> name e = name r
        \<and> baseUrl e = baseUrl r
        \<and> apiKey e = (if truthy (encryptedApiKey r)
                       then decryptSecret svc (orEmpty (encryptedApiKey r)) else None)
        \<and> headers e = (if truthy (encryptedHeaders r)
                        then Option.bind (decryptSecret svc (orEmpty (encryptedHeaders r)))
                               (jsonParse svc)
                        else None)
        \<and> (truthy (encryptedApiKey r) \<and> apiKey e = None
             \<longleftrightarrow> LogError ''Failed to decrypt API key for endpoint'' \<in> set (snd res))
        \<and> (truthy (encryptedHeaders r) \<and> headers e = None
             \<longleftrightarrow> LogError ''Failed to decrypt headers for endpoint'' \<in> set (snd res)))"

text \<open>The row that \<open>createCustomEndpoint\<close> inserts, given the two encrypted secrets.\<close>

definition newRow ::
  "nat \<Rightarrow> CreateCustomEndpointParams \<Rightarrow> string option \<Rightarrow> string option \<Rightarrow>
   custom_llm_endpoints_row" where
  "newRow now params encKey encHdrs =
     \<lparr>ident = newId params, workspaceId = newWorkspaceId params,
      name = newName params, baseUrl = newBaseUrl params,
      createdBy = Some (newCreatedBy params),
      createdAt = now, updatedAt = now,
      apiTypeColumn = Some (apiTypeOrDefault (newApiType params)),
      encryptedApiKey = encKey, encryptedHeaders = encHdrs\<rparr>"

text \<open>
  Example services: a toy cipher that tags the plain text, and a codec that knows two
  header mappings.
\<close>

definition demoServices :: services where
  "demoServices =
     \<lparr>encryptSecret = (\<lambda>s. Some (''enc:'' @ s)),
      decryptSecret = (\<lambda>c. if take 4 c = ''enc:'' then Some (drop 4 c) else None),
      jsonStringify = (\<lambda>h. if h = [(''X-Org'', ''acme'')] then ''{X-Org:acme}'' else ''{}''),
      jsonParse = (\<lambda>t. if t = ''{X-Org:acme}'' then Some [(''X-Org'', ''acme'')]
                        else if t = ''{}'' then Some [] else None)\<rparr>"

text \<open>A stored endpoint whose key blob decrypts and whose header blob is corrupt.\<close>

definition demoRow :: custom_llm_endpoints_row where
  "demoRow =
     \<lparr>ident = ''ep1'', workspaceId = ''W'', name = ''vllm-1'', baseUrl = ''https://h:8000'',
      createdBy = Some ''u1'', createdAt = 100, updatedAt = 100,
      apiTypeColumn = Some OpenAI,
      encryptedApiKey = Some ''enc:sk-abc'', encryptedHeaders = Some ''corrupt''\<rparr>"

text \<open>The contract of the encryption primitive that a round trip through the store rests on.\<close>

definition decryptInvertsEncrypt :: "services \<Rightarrow> bool" where
  "decryptInvertsEncrypt svc =
     (\<forall>s c. encryptSecret svc s = Some c \<longrightarrow> decryptSecret svc c = Some s)"

definition ciphertextsNonEmpty :: "services \<Rightarrow> bool" where
  "ciphertextsNonEmpty svc = (\<forall>s c. encryptSecret svc s = Some c \<longrightarrow> c \<noteq> [])"

text \<open>A creation request whose API key is the empty string and whose header mapping has no keys.\<close>

definition emptyKeyParams :: CreateCustomEndpointParams where
  "emptyKeyParams =
     \<lparr>newId = ''ep2'', newWorkspaceId = ''W'', newName = ''gpu-1'',
      newBaseUrl = ''https://gpu:8000'', newApiType = None,
      newApiKey = Some '''', newHeaders = Some [], newCreatedBy = ''u1''\<rparr>"

text \<open>The creation request of the spec's end-to-end example.\<close>

definition vllmParams :: CreateCustomEndpointParams where
  "vllmParams =
     \<lparr>newId = ''ep1'', newWorkspaceId = ''W'', newName = ''vllm-1'',
      newBaseUrl = ''https://h:8000'', newApiType = Some OpenAI,
      newApiKey = Some ''sk-abc'', newHeaders = None, newCreatedBy = ''u1''\<rparr>"

text \<open>The update payload \<open>{}\<close>.\<close>

definition emptyUpdate :: UpdateCustomEndpointParams where
  "emptyUpdate = \<lparr>setName = None, setBaseUrl = None, setApiKey = None, setHeaders = None\<rparr>"

text \<open>
  The update payload
  \<open>{name: 'claude-2', baseUrl: 'https://q:9000', apiKey: 'sk-new', headers: null}\<close>.
\<close>

definition renameUpdate :: UpdateCustomEndpointParams where
  "renameUpdate =
     \<lparr>setName = Some ''claude-2'', setBaseUrl = Some ''https://q:9000'',
      setApiKey = Some (Value ''sk-new''), setHeaders = Some Null\<rparr>"

text \<open>The rows of a table that match a workspace and a name.\<close>

definition matchingRows :: "db \<Rightarrow> string \<Rightarrow> string \<Rightarrow> custom_llm_endpoints_row set" where
  "matchingRows d ws n = {r \<in> set d. workspaceId r = ws \<and> name r = n}"

text \<open>A stored endpoint with an API key and one header, both blobs intact.\<close>

definition headerRow :: custom_llm_endpoints_row where
  "headerRow =
     \<lparr>ident = ''ep3'', workspaceId = ''W'', name = ''claude-proxy'',
      baseUrl = ''https://p:9000'', createdBy = None, createdAt = 100, updatedAt = 100,
      apiTypeColumn = Some Anthropic,
      encryptedApiKey = Some ''enc:sk-xyz'', encryptedHeaders = Some ''enc:{X-Org:acme}''\<rparr>"


text \<open>
  Example collaborators: one provider that answers every request with a response for the
  model \<open>gpt-4o\<close> carrying token usage, a bring-your-own-key resolution that supplies a
  workspace key, a billing table in which \<open>gpt-4o\<close> is billable, and a fixed price.
\<close>

definition demoResponse :: ProviderResponse where
  "demoResponse =
     \<lparr>responseModel = ''gpt-4o'',
      tokens = Some \<lparr>tokensInput = Some 10, tokensOutput = Some 20\<rparr>,
      responseCost = None\<rparr>"

definition demoProvider :: provider_config where
  "demoProvider = \<lparr>executeRequest = Some (\<lambda>request. Inr (Response demoResponse))\<rparr>"

definition demoPrice :: cost where
  "demoPrice =
     \<lparr>costInput = 1, costOutput = 2, costTotal = 3,
      costPricing = \<lparr>pricingInput = 1, pricingOutput = 1, pricingUpdatedAt = ''2026-01-01''\<rparr>\<rparr>"

definition demoEnv :: collaborators where
  "demoEnv =
     \<lparr>getProviderExecutor = (\<lambda>providerId. Some demoProvider),
      supportsTemperature = (\<lambda>m. True),
      getApiKeyWithBYOK = (\<lambda>providerId m ws key. Inr (''workspace-key'', True)),
      generateStructuredOutputInstructions =
        (\<lambda>fmt. case fmt of FormatString s \<Rightarrow> ''Answer in JSON: '' @ s | FormatObject s \<Rightarrow> ''''),
      shouldBillModelUsage = (\<lambda>m. m = ''gpt-4o''),
      getCostMultiplier = 1,
      calculateCost = (\<lambda>m promptTokens completionTokens cached a b. demoPrice),
      isoNow = ''2026-01-01T00:00:00.000Z''\<rparr>"

text \<open>A request with every optional field absent, for the model \<open>m\<close> in workspace \<open>W\<close>.\<close>

definition demoRequest :: "string \<Rightarrow> ProviderRequest" where
  "demoRequest m =
     \<lparr>model = m, requestWorkspaceId = Some ''W'', requestApiKey = None, temperature = None,
      systemPrompt = Some ''You are terse.'', responseFormat = None, requestContext = None,
      isBYOK = None,
      customOpenaiBaseUrl = None, customOpenaiEndpointName = None, customOpenaiHeaders = None,
      customAnthropicBaseUrl = None, customAnthropicEndpointName = None,
      customAnthropicHeaders = None,
      customGoogleBaseUrl = None, customGoogleEndpointName = None, customGoogleHeaders = None\<rparr>"

text \<open>A signed-in workspace admin.\<close>

definition adminContext :: route_context where
  "adminContext =
     \<lparr>sessionUserId = Some ''u1'', getUserEntityPermissions = (\<lambda>userId ws. Some Admin)\<rparr>"

section \<open>Properties of the parser\<close>

lemma indexOf_absent: "c \<notin> set s \<Longrightarrow> indexOf s c = - 1"
  by (induction s) auto

lemma indexOf_first: "c \<notin> set e \<Longrightarrow> indexOf (e @ c # m) c = int (length e)"
proof (induction e)
  case Nil
  then show ?case by simp
next
  case (Cons x e)
  then have "indexOf (e @ c # m) c = int (length e)" by simp
  with Cons.prems show ?case by (auto simp: Let_def)
qed

lemma slice_before: "slice (e @ c # m) 0 (int (length e)) = e"
  by (simp add: slice_def sliceIndex_def Let_def)

lemma sliceFrom_after: "sliceFrom (e @ c # m) (int (length e) + 1) = m"
  by (simp add: sliceFrom_def slice_def sliceIndex_def Let_def nat_add_distrib)

lemma replaceAtStart_prefixed: "replaceAtStart p (p @ s) = s"
  by (simp add: replaceAtStart_def)

lemma split_on_first_slash:
  "(let slashIndex = indexOf rest CHR ''/''
    in if slashIndex = - 1 then \<lparr>endpointName = '''', modelName = rest\<rparr>
       else \<lparr>endpointName = slice rest 0 slashIndex,
             modelName = sliceFrom rest (slashIndex + 1)\<rparr>) = splitReference rest"
proof (cases "CHR ''/'' \<in> set rest")
  case False
  then show ?thesis by (simp add: splitReference_def indexOf_absent)
next
  case True
  define e where "e = takeWhile (\<lambda>c. c \<noteq> CHR ''/'') rest"
  define d where "d = dropWhile (\<lambda>c. c \<noteq> CHR ''/'') rest"
  have rest: "rest = e @ d" by (simp add: e_def d_def)
  have "d \<noteq> []" using True by (simp add: d_def)
  moreover have "d \<noteq> [] \<Longrightarrow> hd d = CHR ''/''"
    unfolding d_def using hd_dropWhile [of "\<lambda>c. c \<noteq> CHR ''/''" rest] by simp
  ultimately obtain m where d: "d = CHR ''/'' # m" by (cases d) auto
  have e: "CHR ''/'' \<notin> set e"
    unfolding e_def by (auto dest: set_takeWhileD)
  have ix: "indexOf rest CHR ''/'' = int (length e)"
    unfolding rest d by (rule indexOf_first [OF e])
  have "slice rest 0 (int (length e)) = e" "sliceFrom rest (int (length e) + 1) = m"
    unfolding rest d by (rule slice_before, rule sliceFrom_after)
  moreover have "splitReference rest = \<lparr>endpointName = e, modelName = m\<rparr>"
    using True by (simp add: splitReference_def e_def [symmetric] d_def [symmetric] d)
  ultimately show ?thesis by (simp add: ix Let_def)
qed

lemma parseFamily_split:
  "parseFamily fam s = splitReference (replaceAtStart (familyPrefix fam @ '':'') s)"
proof (cases fam)
  case CustomOpenAI
  then show ?thesis
    using split_on_first_slash [of "replaceAtStart ''custom-openai:'' s"]
    by (simp add: parseCustomOpenAIModel_def Let_def)
next
  case CustomAnthropic
  then show ?thesis
    using split_on_first_slash [of "replaceAtStart ''custom-anthropic:'' s"]
    by (simp add: parseCustomAnthropicModel_def Let_def)
next
  case CustomGoogle
  then show ?thesis
    using split_on_first_slash [of "replaceAtStart ''custom-google:'' s"]
    by (simp add: parseCustomGoogleModel_def Let_def)
qed

lemma splitReference_no_slash:
  "CHR ''/'' \<notin> set rest \<Longrightarrow> splitReference rest = \<lparr>endpointName = '''', modelName = rest\<rparr>"
  by (simp add: splitReference_def)

lemma splitReference_slash:
  "CHR ''/'' \<notin> set e \<Longrightarrow>
   splitReference (e @ CHR ''/'' # m) = \<lparr>endpointName = e, modelName = m\<rparr>"
proof -
  assume e: "CHR ''/'' \<notin> set e"
  then have "takeWhile (\<lambda>c. c \<noteq> CHR ''/'') (e @ CHR ''/'' # m) = e"
    by (induction e) auto
  moreover from e have "dropWhile (\<lambda>c. c \<noteq> CHR ''/'') (e @ CHR ''/'' # m) = CHR ''/'' # m"
    by (induction e) auto
  ultimately show ?thesis by (simp add: splitReference_def)
qed

lemma replaceAtStart_kept: "\<not> prefix p s \<Longrightarrow> replaceAtStart p s = s"
  unfolding replaceAtStart_def prefix_def by (metis append_take_drop_id)

text \<open>
  Claim C3. For each of the three family prefixes \<open>P\<close> and every string \<open>s\<close>, the parser
  strips a leading \<open>P:\<close> if there is one and splits what remains on its first \<open>/\<close>: with no
  \<open>/\<close> the endpoint name is empty and the remainder is the model name; otherwise the
  endpoint name is the text before the first \<open>/\<close> and the model name everything after it,
  further \<open>/\<close> included. In particular \<open>parse (P:e/m) = (e, m)\<close> when \<open>e\<close> has no \<open>/\<close>. The
  parser is a total function: it has a value on every string.
\<close>

theorem parse_splits_on_first_slash:
  "(\<forall>t. CHR ''/'' \<notin> set t \<longrightarrow>
        parseFamily fam (familyPrefix fam @ '':'' @ t) = \<lparr>endpointName = '''', modelName = t\<rparr>)
   \<and> (\<forall>e m. CHR ''/'' \<notin> set e \<longrightarrow>
        parseFamily fam (familyPrefix fam @ '':'' @ e @ ''/'' @ m)
          = \<lparr>endpointName = e, modelName = m\<rparr>)
   \<and> (\<not> prefix (familyPrefix fam @ '':'') s \<and> CHR ''/'' \<notin> set s \<longrightarrow>
        parseFamily fam s = \<lparr>endpointName = '''', modelName = s\<rparr>)
   \<and> (\<forall>e m. \<not> prefix (familyPrefix fam @ '':'') s \<and> s = e @ ''/'' @ m \<and> CHR ''/'' \<notin> set e \<longrightarrow>
        parseFamily fam s = \<lparr>endpointName = e, modelName = m\<rparr>)"
proof -
  define p where "p = familyPrefix fam @ '':''"
  have stripped: "parseFamily fam (familyPrefix fam @ '':'' @ t) = splitReference t" for t
    using replaceAtStart_prefixed [of p t] by (simp add: parseFamily_split p_def)
  have kept: "parseFamily fam s = splitReference s" if "\<not> prefix (familyPrefix fam @ '':'') s"
    using that by (simp add: parseFamily_split replaceAtStart_kept)
  have 1: "parseFamily fam (familyPrefix fam @ '':'' @ t) = \<lparr>endpointName = '''', modelName = t\<rparr>"
    if "CHR ''/'' \<notin> set t" for t
    using that stripped [of t] by (simp add: splitReference_no_slash)
  have 2: "parseFamily fam (familyPrefix fam @ '':'' @ e @ ''/'' @ m)
          = \<lparr>endpointName = e, modelName = m\<rparr>" if "CHR ''/'' \<notin> set e" for e m
    using splitReference_slash [OF that, of m] stripped [of "e @ ''/'' @ m"] by simp
  have 3: "parseFamily fam s = \<lparr>endpointName = '''', modelName = s\<rparr>"
    if "\<not> prefix (familyPrefix fam @ '':'') s" "CHR ''/'' \<notin> set s"
    using that by (simp add: kept splitReference_no_slash)
  have 4: "parseFamily fam s = \<lparr>endpointName = e, modelName = m\<rparr>"
    if "\<not> prefix (familyPrefix fam @ '':'') s" "s = e @ ''/'' @ m" "CHR ''/'' \<notin> set e" for e m
    using splitReference_slash [OF that(3), of m] that(1,2) kept by simp
  from 1 2 3 4 show ?thesis by blast
qed

text \<open>The four cases of the theorem at concrete references.\<close>

theorem parse_splits_on_first_slash_witness:
  "parseFamily CustomAnthropic ''custom-anthropic:my-server/claude/3''
     = \<lparr>endpointName = ''my-server'', modelName = ''claude/3''\<rparr>
   \<and> parseFamily CustomGoogle ''custom-google:gemini-2.0-flash''
     = \<lparr>endpointName = '''', modelName = ''gemini-2.0-flash''\<rparr>
   \<and> parseFamily CustomOpenAI ''vllm-1/llama-3''
     = \<lparr>endpointName = ''vllm-1'', modelName = ''llama-3''\<rparr>
   \<and> parseFamily CustomOpenAI ''llama-3''
     = \<lparr>endpointName = '''', modelName = ''llama-3''\<rparr>"
proof -
  have a: "parseFamily CustomAnthropic ''custom-anthropic:my-server/claude/3''
     = \<lparr>endpointName = ''my-server'', modelName = ''claude/3''\<rparr>"
  proof -
    from parse_splits_on_first_slash [of CustomAnthropic "[]"]
    have "CHR ''/'' \<notin> set ''my-server'' \<longrightarrow>
        parseFamily CustomAnthropic
          (familyPrefix CustomAnthropic @ '':'' @ ''my-server'' @ ''/'' @ ''claude/3'')
          = \<lparr>endpointName = ''my-server'', modelName = ''claude/3''\<rparr>"
      by blast
    then show ?thesis by simp
  qed
  have b: "parseFamily CustomGoogle ''custom-google:gemini-2.0-flash''
     = \<lparr>endpointName = '''', modelName = ''gemini-2.0-flash''\<rparr>"
  proof -
    from parse_splits_on_first_slash [of CustomGoogle "[]"]
    have "CHR ''/'' \<notin> set ''gemini-2.0-flash'' \<longrightarrow>
        parseFamily CustomGoogle (familyPrefix CustomGoogle @ '':'' @ ''gemini-2.0-flash'')
          = \<lparr>endpointName = '''', modelName = ''gemini-2.0-flash''\<rparr>"
      by blast
    then show ?thesis by simp
  qed
  have c: "parseFamily CustomOpenAI ''vllm-1/llama-3''
     = \<lparr>endpointName = ''vllm-1'', modelName = ''llama-3''\<rparr>"
  proof -
    from parse_splits_on_first_slash [of CustomOpenAI "''vllm-1/llama-3''"]
    have "\<not> prefix (familyPrefix CustomOpenAI @ '':'') ''vllm-1/llama-3''
        \<and> ''vllm-1/llama-3'' = ''vllm-1'' @ ''/'' @ ''llama-3'' \<and> CHR ''/'' \<notin> set ''vllm-1''
        \<longrightarrow> parseFamily CustomOpenAI ''vllm-1/llama-3''
              = \<lparr>endpointName = ''vllm-1'', modelName = ''llama-3''\<rparr>"
      by blast
    then show ?thesis by simp
  qed
  have d: "parseFamily CustomOpenAI ''llama-3''
     = \<lparr>endpointName = '''', modelName = ''llama-3''\<rparr>"
    using parse_splits_on_first_slash [of CustomOpenAI "''llama-3''"] by simp
  from a b c d show ?thesis by blast
qed

section \<open>Properties of the relational store\<close>

lemma filter_key_unique:
  "distinct (map f d) \<Longrightarrow> r \<in> set d \<Longrightarrow> filter (\<lambda>x. f x = f r) d = [r]"
proof (induction d)
  case Nil
  then show ?case by simp
next
  case (Cons a d)
  show ?case
  proof (cases "a = r")
    case True
    with Cons.prems have "f r \<notin> f ` set d" by simp
    then have "filter (\<lambda>x. f x = f r) d = []"
      by (simp add: filter_empty_conv image_iff) metis
    with True show ?thesis by simp
  next
    case False
    with Cons.prems have r: "r \<in> set d" and "f a \<notin> f ` set d" by auto
    then have "f a \<noteq> f r" by auto
    with Cons.IH Cons.prems r show ?thesis by simp
  qed
qed

lemma selectById_stored:
  "primaryKey d \<Longrightarrow> r \<in> set d \<Longrightarrow> selectById d (ident r) = [r]"
  unfolding primaryKey_def selectById_def
  using filter_key_unique [of ident d r] by simp

lemma selectByWorkspaceAndName_stored:
  assumes "uniqueWorkspaceName d" "r \<in> set d"
  shows "selectByWorkspaceAndName d (workspaceId r) (name r) = [r]"
proof -
  have "filter (\<lambda>x. (workspaceId x, name x) = (workspaceId r, name r)) d = [r]"
    using assms filter_key_unique [of "\<lambda>x. (workspaceId x, name x)" d r]
    by (simp add: uniqueWorkspaceName_def)
  then show ?thesis by (simp add: selectByWorkspaceAndName_def)
qed

lemma constraintViolation_None:
  "constraintViolation d = None \<longleftrightarrow> primaryKey d \<and> uniqueWorkspaceName d"
  by (simp add: constraintViolation_def)

lemma dbInsert_Inr:
  "dbInsert d r = Inr (d', r') \<longleftrightarrow>
     primaryKey (d @ [r]) \<and> uniqueWorkspaceName (d @ [r]) \<and> d' = d @ [r] \<and> r' = r"
proof (cases "constraintViolation (d @ [r])")
  case None
  then show ?thesis
    using constraintViolation_None [of "d @ [r]"] by (auto simp: dbInsert_def)
next
  case (Some e)
  then show ?thesis
    using constraintViolation_None [of "d @ [r]"] by (auto simp: dbInsert_def)
qed

section \<open>Properties of the resolver\<close>

lemma decryptApiKeyOrLog_value:
  "fst (decryptApiKeyOrLog svc msg stored)
     = (if truthy stored then decryptSecret svc (orEmpty stored) else None)"
  by (cases stored) (auto simp: decryptApiKeyOrLog_def split: option.splits)

lemma decryptApiKeyOrLog_log:
  "snd (decryptApiKeyOrLog svc msg stored)
     = (if truthy stored \<and> decryptSecret svc (orEmpty stored) = None then [LogError msg] else [])"
  by (cases stored) (auto simp: decryptApiKeyOrLog_def split: option.splits)

lemma decryptHeadersOrLog_value:
  "fst (decryptHeadersOrLog svc msg stored)
     = (if truthy stored then Option.bind (decryptSecret svc (orEmpty stored)) (jsonParse svc)
        else None)"
  by (cases stored) (auto simp: decryptHeadersOrLog_def split: option.splits)

lemma decryptHeadersOrLog_log:
  "snd (decryptHeadersOrLog svc msg stored)
     = (if truthy stored
           \<and> Option.bind (decryptSecret svc (orEmpty stored)) (jsonParse svc) = None
        then [LogError msg] else [])"
  by (cases stored) (auto simp: decryptHeadersOrLog_def split: option.splits)

lemma getCustomEndpointByName_found:
  "selectByWorkspaceAndName d ws n = r # rest \<Longrightarrow>
   getCustomEndpointByName svc d ws n =
     (Some (withCredentials r
        (fst (decryptApiKeyOrLog svc ''Failed to decrypt API key for endpoint'' (encryptedApiKey r)))
        (fst (decryptHeadersOrLog svc ''Failed to decrypt headers for endpoint'' (encryptedHeaders r)))),
      snd (decryptApiKeyOrLog svc ''Failed to decrypt API key for endpoint'' (encryptedApiKey r))
      @ snd (decryptHeadersOrLog svc ''Failed to decrypt headers for endpoint'' (encryptedHeaders r)))"
  by (simp add: getCustomEndpointByName_def case_prod_beta)

lemma getCustomEndpointById_found:
  "selectById d i = r # rest \<Longrightarrow>
   getCustomEndpointById svc d i =
     (Some (withCredentials r
        (fst (decryptApiKeyOrLog svc ''Failed to decrypt API key for endpoint'' (encryptedApiKey r)))
        (fst (decryptHeadersOrLog svc ''Failed to decrypt headers for endpoint'' (encryptedHeaders r)))),
      snd (decryptApiKeyOrLog svc ''Failed to decrypt API key for endpoint'' (encryptedApiKey r))
      @ snd (decryptHeadersOrLog svc ''Failed to decrypt headers for endpoint'' (encryptedHeaders r)))"
  by (simp add: getCustomEndpointById_def case_prod_beta)

lemma getCustomEndpointByName_missing:
  "selectByWorkspaceAndName d ws n = [] \<Longrightarrow> getCustomEndpointByName svc d ws n = (None, [])"
  by (simp add: getCustomEndpointByName_def)

lemma getCustomEndpointById_missing:
  "selectById d i = [] \<Longrightarrow> getCustomEndpointById svc d i = (None, [])"
  by (simp add: getCustomEndpointById_def)

lemma resolvedAs_withCredentials:
  "resolvedAs svc r
     (Some (withCredentials r
        (fst (decryptApiKeyOrLog svc ''Failed to decrypt API key for endpoint'' (encryptedApiKey r)))
        (fst (decryptHeadersOrLog svc ''Failed to decrypt headers for endpoint'' (encryptedHeaders r)))),
      snd (decryptApiKeyOrLog svc ''Failed to decrypt API key for endpoint'' (encryptedApiKey r))
      @ snd (decryptHeadersOrLog svc ''Failed to decrypt headers for endpoint'' (encryptedHeaders r)))"
  unfolding resolvedAs_def decryptApiKeyOrLog_value decryptApiKeyOrLog_log
    decryptHeadersOrLog_value decryptHeadersOrLog_log
  by (simp add: withCredentials_def)

text \<open>
  Claim C5. For every stored endpoint row, resolution by name and resolution by id decrypt
  the API key and the headers independently of each other: a decryption failure on one
  field is logged and makes that field \<open>null\<close>, the resolution still returns the record, and
  the other field has the value its own blob decrypts to. (The table satisfies its primary
  key and its unique index, so the row is the one its id and its workspace and name select.)
\<close>

theorem decryption_failures_degrade_per_field:
  "primaryKey d \<and> uniqueWorkspaceName d \<and> r \<in> set d \<longrightarrow>
     resolvedAs svc r (getCustomEndpointByName svc d (workspaceId r) (name r))
     \<and> resolvedAs svc r (getCustomEndpointById svc d (ident r))"
  by (simp add: selectById_stored selectByWorkspaceAndName_stored
      getCustomEndpointByName_found getCustomEndpointById_found resolvedAs_withCredentials)

text \<open>
  At the example row the header blob is corrupt: both resolutions return the record with the
  decrypted key, no headers, and one logged error.
\<close>

theorem decryption_failures_degrade_per_field_witness:
  "primaryKey [demoRow] \<and> uniqueWorkspaceName [demoRow] \<and> demoRow \<in> set [demoRow]
   \<and> resolvedAs demoServices demoRow (getCustomEndpointByName demoServices [demoRow] ''W'' ''vllm-1'')
   \<and> resolvedAs demoServices demoRow (getCustomEndpointById demoServices [demoRow] ''ep1'')
   \<and> map_option apiKey (fst (getCustomEndpointByName demoServices [demoRow] ''W'' ''vllm-1''))
       = Some (Some ''sk-abc'')
   \<and> map_option headers (fst (getCustomEndpointByName demoServices [demoRow] ''W'' ''vllm-1''))
       = Some None
   \<and> snd (getCustomEndpointByName demoServices [demoRow] ''W'' ''vllm-1'')
       = [LogError ''Failed to decrypt headers for endpoint'']"
proof -
  have pre: "primaryKey [demoRow] \<and> uniqueWorkspaceName [demoRow] \<and> demoRow \<in> set [demoRow]"
    by (simp add: primaryKey_def uniqueWorkspaceName_def)
  have sel: "workspaceId demoRow = ''W''" "name demoRow = ''vllm-1''" "ident demoRow = ''ep1''"
    by (simp_all add: demoRow_def)
  from decryption_failures_degrade_per_field [of "[demoRow]" demoRow demoServices] pre
  have res: "resolvedAs demoServices demoRow (getCustomEndpointByName demoServices [demoRow] ''W'' ''vllm-1'')
     \<and> resolvedAs demoServices demoRow (getCustomEndpointById demoServices [demoRow] ''ep1'')"
    by (simp only: sel)
  have ev: "getCustomEndpointByName demoServices [demoRow] ''W'' ''vllm-1''
      = (Some (withCredentials demoRow (Some ''sk-abc'') None),
         [LogError ''Failed to decrypt headers for endpoint''])"
    by (simp add: getCustomEndpointByName_def selectByWorkspaceAndName_def demoRow_def
        demoServices_def decryptApiKeyOrLog_def decryptHeadersOrLog_def)
  from pre res show ?thesis by (simp add: ev withCredentials_def)
qed

section \<open>Properties of create\<close>

lemma createCustomEndpoint_success:
  assumes "fst (createCustomEndpoint svc now d params) = Inr (e, d')"
  obtains encKey encHdrs names where
    "encryptApiKeyParam svc (newApiKey params) = Inr encKey"
    "encryptHeadersParam svc (newHeaders params) = Inr (encHdrs, names)"
    "d' = d @ [newRow now params encKey encHdrs]"
    "primaryKey d'" "uniqueWorkspaceName d'"
    "hasApiKey e = truthy encKey" "headerNames e = names"
    "ident e = newId params" "workspaceId e = newWorkspaceId params"
    "name e = newName params" "baseUrl e = newBaseUrl params"
  using assms
  by (auto simp: createCustomEndpoint_def newRow_def dbInsert_Inr
      split: sum.splits prod.splits)

lemma encryptApiKeyParam_Inr:
  "encryptApiKeyParam svc key = Inr encKey \<Longrightarrow>
     (if truthy key then (\<exists>c. encKey = Some c \<and> encryptSecret svc (orEmpty key) = Some c)
      else encKey = None)"
  by (cases key) (auto simp: encryptApiKeyParam_def split: option.splits if_splits)

lemma encryptHeadersParam_Inr:
  "encryptHeadersParam svc hs = Inr (encHdrs, names) \<Longrightarrow>
     (case hs of
        None \<Rightarrow> encHdrs = None \<and> names = []
      | Some h \<Rightarrow>
          if h = [] then encHdrs = None \<and> names = []
          else (\<exists>c. encHdrs = Some c \<and> encryptSecret svc (jsonStringify svc h) = Some c)
               \<and> names = objectKeys h)"
  by (cases hs)
    (auto simp: encryptHeadersParam_def objectKeys_def split: option.splits if_splits)

lemma created_row_selected:
  assumes "uniqueWorkspaceName (d @ [r])"
  shows "selectByWorkspaceAndName (d @ [r]) (workspaceId r) (name r) = [r]"
  using selectByWorkspaceAndName_stored [OF assms, of r] by simp

text \<open>
  Claim C4, amended. For every \<open>create(params)\<close> that succeeds, a \<open>resolveByName\<close> of the
  new name in the new table (decrypt inverting encrypt, and no ciphertext being the empty
  string) returns a record whose \<open>baseUrl\<close> is \<open>params.baseUrl\<close> and whose \<open>apiKey\<close> is
  \<open>params.apiKey\<close> when that is a non-empty string, and \<open>null\<close> when it was omitted or is
  the empty string.
\<close>

theorem create_then_resolve_round_trip:
  "fst (createCustomEndpoint svc now d params) = Inr (e, d')
   \<and> decryptInvertsEncrypt svc \<and> ciphertextsNonEmpty svc \<longrightarrow>
     (\<exists>r. fst (getCustomEndpointByName svc d' (newWorkspaceId params) (newName params)) = Some r
        \<and> baseUrl r = newBaseUrl params
        \<and> apiKey r = (if truthy (newApiKey params) then newApiKey params else None))"
proof (intro impI, elim conjE)
  assume ok: "fst (createCustomEndpoint svc now d params) = Inr (e, d')"
    and inv: "decryptInvertsEncrypt svc" and ne: "ciphertextsNonEmpty svc"
  from ok obtain encKey encHdrs and names :: "string list" where
    key: "encryptApiKeyParam svc (newApiKey params) = Inr encKey"
    and d': "d' = d @ [newRow now params encKey encHdrs]"
    and uniq: "uniqueWorkspaceName d'"
    by (rule createCustomEndpoint_success)
  define r where "r = newRow now params encKey encHdrs"
  have fields: "workspaceId r = newWorkspaceId params" "name r = newName params"
    "baseUrl r = newBaseUrl params" "encryptedApiKey r = encKey"
    by (simp_all add: r_def newRow_def)
  have sel: "selectByWorkspaceAndName d' (newWorkspaceId params) (newName params) = [r]"
    using created_row_selected [of d r] uniq by (simp add: d' r_def [symmetric] fields)
  have res: "resolvedAs svc r (getCustomEndpointByName svc d' (newWorkspaceId params) (newName params))"
    by (simp add: getCustomEndpointByName_found [OF sel] resolvedAs_withCredentials)
  have "(if truthy encKey then decryptSecret svc (orEmpty encKey) else None)
          = (if truthy (newApiKey params) then newApiKey params else None)"
  proof (cases "truthy (newApiKey params)")
    case False
    with encryptApiKeyParam_Inr [OF key] show ?thesis by simp
  next
    case True
    then obtain k where k: "newApiKey params = Some k" "k \<noteq> []"
      by (cases "newApiKey params") auto
    with encryptApiKeyParam_Inr [OF key] obtain c where c: "encKey = Some c"
      "encryptSecret svc k = Some c" by auto
    with inv ne have "decryptSecret svc c = Some k" "c \<noteq> []"
      by (auto simp: decryptInvertsEncrypt_def ciphertextsNonEmpty_def)
    with k c show ?thesis by simp
  qed
  with res show "\<exists>r. fst (getCustomEndpointByName svc d' (newWorkspaceId params) (newName params)) = Some r
        \<and> baseUrl r = newBaseUrl params
        \<and> apiKey r = (if truthy (newApiKey params) then newApiKey params else None)"
    by (auto simp: resolvedAs_def fields)
qed

lemma demoServices_contract:
  "decryptInvertsEncrypt demoServices" "ciphertextsNonEmpty demoServices"
  by (auto simp: decryptInvertsEncrypt_def ciphertextsNonEmpty_def demoServices_def)

lemma create_vllm:
  "createCustomEndpoint demoServices 100 [] vllmParams =
     (Inr (\<lparr>ident = ''ep1'', workspaceId = ''W'', name = ''vllm-1'', baseUrl = ''https://h:8000'',
            createdBy = Some ''u1'', createdAt = 100, updatedAt = 100, apiType = OpenAI,
            hasApiKey = True, headerNames = []\<rparr>,
           [newRow 100 vllmParams (Some ''enc:sk-abc'') None]),
      [LogInfo ''Created custom LLM endpoint''])"
  by (simp add: createCustomEndpoint_def vllmParams_def demoServices_def encryptApiKeyParam_def
      encryptHeadersParam_def dbInsert_def constraintViolation_def primaryKey_def
      uniqueWorkspaceName_def newRow_def)

theorem create_then_resolve_round_trip_witness:
  "fst (createCustomEndpoint demoServices 100 [] vllmParams)
     = Inr (\<lparr>ident = ''ep1'', workspaceId = ''W'', name = ''vllm-1'', baseUrl = ''https://h:8000'',
            createdBy = Some ''u1'', createdAt = 100, updatedAt = 100, apiType = OpenAI,
            hasApiKey = True, headerNames = []\<rparr>,
           [newRow 100 vllmParams (Some ''enc:sk-abc'') None])
   \<and> decryptInvertsEncrypt demoServices \<and> ciphertextsNonEmpty demoServices
   \<and> (\<exists>r. fst (getCustomEndpointByName demoServices [newRow 100 vllmParams (Some ''enc:sk-abc'') None]
                  ''W'' ''vllm-1'') = Some r
        \<and> baseUrl r = ''https://h:8000'' \<and> apiKey r = Some ''sk-abc'')"
proof -
  have ok: "fst (createCustomEndpoint demoServices 100 [] vllmParams)
     = Inr (\<lparr>ident = ''ep1'', workspaceId = ''W'', name = ''vllm-1'', baseUrl = ''https://h:8000'',
            createdBy = Some ''u1'', createdAt = 100, updatedAt = 100, apiType = OpenAI,
            hasApiKey = True, headerNames = []\<rparr>,
           [newRow 100 vllmParams (Some ''enc:sk-abc'') None])"
    by (simp add: create_vllm)
  have p: "newWorkspaceId vllmParams = ''W''" "newName vllmParams = ''vllm-1''"
    "newBaseUrl vllmParams = ''https://h:8000''" "newApiKey vllmParams = Some ''sk-abc''"
    by (simp_all add: vllmParams_def)
  from create_then_resolve_round_trip [of demoServices 100 "[]" vllmParams] ok demoServices_contract
  have "\<exists>r. fst (getCustomEndpointByName demoServices [newRow 100 vllmParams (Some ''enc:sk-abc'') None]
                  (newWorkspaceId vllmParams) (newName vllmParams)) = Some r
        \<and> baseUrl r = newBaseUrl vllmParams
        \<and> apiKey r = (if truthy (newApiKey vllmParams) then newApiKey vllmParams else None)"
    by blast
  then have "\<exists>r. fst (getCustomEndpointByName demoServices [newRow 100 vllmParams (Some ''enc:sk-abc'') None]
                  ''W'' ''vllm-1'') = Some r
        \<and> baseUrl r = ''https://h:8000'' \<and> apiKey r = Some ''sk-abc''"
    by (simp add: p)
  with ok demoServices_contract show ?thesis by blast
qed

text \<open>
  The claim as stated fails for an API key that is present and empty: the creation
  succeeds, and the resolution returns \<open>null\<close>, not the empty string that was passed.
\<close>

theorem round_trip_empty_key_counterexample:
  "decryptInvertsEncrypt demoServices
   \<and> newApiKey emptyKeyParams = Some ''''
   \<and> map_sum id snd (fst (createCustomEndpoint demoServices 5 [] emptyKeyParams))
       = Inr [newRow 5 emptyKeyParams None None]
   \<and> map_option apiKey
        (fst (getCustomEndpointByName demoServices [newRow 5 emptyKeyParams None None]
               (newWorkspaceId emptyKeyParams) (newName emptyKeyParams)))
       = Some None"
  by (simp add: demoServices_contract createCustomEndpoint_def emptyKeyParams_def
      encryptApiKeyParam_def encryptHeadersParam_def objectKeys_def dbInsert_def
      constraintViolation_def primaryKey_def uniqueWorkspaceName_def newRow_def
      getCustomEndpointByName_def selectByWorkspaceAndName_def decryptApiKeyOrLog_def
      decryptHeadersOrLog_def withCredentials_def)

lemma encryptApiKeyParam_empty:
  "encryptApiKeyParam svc (Some []) = Inr None" "encryptApiKeyParam svc None = Inr None"
  by (simp_all add: encryptApiKeyParam_def)

lemma encryptHeadersParam_empty:
  "encryptHeadersParam svc (Some []) = Inr (None, [])"
  "encryptHeadersParam svc None = Inr (None, [])"
  by (simp_all add: encryptHeadersParam_def objectKeys_def)

lemma encryptApiKeyParam_falsy:
  "\<not> truthy key \<Longrightarrow> encryptApiKeyParam svc key = Inr None"
  by (cases key) (simp_all add: encryptApiKeyParam_def)

lemma encryptHeadersParam_no_keys:
  "hs = None \<or> hs = Some [] \<Longrightarrow> encryptHeadersParam svc hs = Inr (None, [])"
  by (auto simp: encryptHeadersParam_empty)

lemma create_ignores_cipher:
  assumes "\<not> truthy (newApiKey params)" "newHeaders params = None \<or> newHeaders params = Some []"
  shows "createCustomEndpoint (svc\<lparr>encryptSecret := f\<rparr>) now d params
           = createCustomEndpoint svc now d params"
  using encryptApiKeyParam_falsy [OF assms(1)] encryptHeadersParam_no_keys [OF assms(2)]
  by (simp add: createCustomEndpoint_def split: sum.splits prod.splits)

text \<open>
  Claim C10, amended. In \<open>create\<close> an API key that is the empty string is treated exactly as
  an omitted one: nothing is encrypted, the stored \<open>encrypted_api_key\<close> is \<open>null\<close> and the
  returned record has \<open>hasApiKey = false\<close>; likewise a header mapping with no keys is stored
  as absent and the returned \<open>headerNames\<close> is empty. Consequently \<open>create\<close> never stores an
  encrypted empty-string secret: a stored key blob is the encryption of a non-empty key, a
  stored header blob that of a non-empty mapping.
\<close>

theorem create_treats_empty_secret_as_absent:
  "createCustomEndpoint svc now d (params\<lparr>newApiKey := Some ''''\<rparr>)
     = createCustomEndpoint svc now d (params\<lparr>newApiKey := None\<rparr>)
   \<and> createCustomEndpoint svc now d (params\<lparr>newHeaders := Some []\<rparr>)
     = createCustomEndpoint svc now d (params\<lparr>newHeaders := None\<rparr>)
   \<and> (\<not> truthy (newApiKey params)
        \<and> (newHeaders params = None \<or> newHeaders params = Some []) \<longrightarrow>
        (\<forall>f. createCustomEndpoint (svc\<lparr>encryptSecret := f\<rparr>) now d params
               = createCustomEndpoint svc now d params))
   \<and> (fst (createCustomEndpoint svc now d params) = Inr (e, d') \<longrightarrow>
        (\<exists>r. d' = d @ [r]
           \<and> (\<not> truthy (newApiKey params) \<longrightarrow> encryptedApiKey r = None \<and> \<not> hasApiKey e)
           \<and> (newHeaders params = None \<or> newHeaders params = Some [] \<longrightarrow>
                encryptedHeaders r = None \<and> headerNames e = [])
           \<and> (\<forall>c. encryptedApiKey r = Some c \<longrightarrow>
                (\<exists>k. k \<noteq> [] \<and> newApiKey params = Some k \<and> encryptSecret svc k = Some c))
           \<and> (\<forall>c. encryptedHeaders r = Some c \<longrightarrow>
                (\<exists>h. h \<noteq> [] \<and> newHeaders params = Some h
                   \<and> encryptSecret svc (jsonStringify svc h) = Some c))))"
proof (intro conjI impI allI)
  show "createCustomEndpoint svc now d (params\<lparr>newApiKey := Some ''''\<rparr>)
     = createCustomEndpoint svc now d (params\<lparr>newApiKey := None\<rparr>)"
    by (simp add: createCustomEndpoint_def encryptApiKeyParam_empty split: sum.splits prod.splits)
  show "createCustomEndpoint svc now d (params\<lparr>newHeaders := Some []\<rparr>)
     = createCustomEndpoint svc now d (params\<lparr>newHeaders := None\<rparr>)"
    by (simp add: createCustomEndpoint_def encryptHeadersParam_empty split: sum.splits prod.splits)
next
  fix f
  assume "\<not> truthy (newApiKey params)
        \<and> (newHeaders params = None \<or> newHeaders params = Some [])"
  then show "createCustomEndpoint (svc\<lparr>encryptSecret := f\<rparr>) now d params
               = createCustomEndpoint svc now d params"
    using create_ignores_cipher by blast
next
  assume ok: "fst (createCustomEndpoint svc now d params) = Inr (e, d')"
  from ok obtain encKey encHdrs and names :: "string list" where
    key: "encryptApiKeyParam svc (newApiKey params) = Inr encKey"
    and hdr: "encryptHeadersParam svc (newHeaders params) = Inr (encHdrs, names)"
    and d': "d' = d @ [newRow now params encKey encHdrs]"
    and e: "hasApiKey e = truthy encKey" "headerNames e = names"
    by (rule createCustomEndpoint_success)
  define r where "r = newRow now params encKey encHdrs"
  have fields: "encryptedApiKey r = encKey" "encryptedHeaders r = encHdrs"
    by (simp_all add: r_def newRow_def)
  have 1: "encryptedApiKey r = None \<and> \<not> hasApiKey e" if "\<not> truthy (newApiKey params)"
    using that encryptApiKeyParam_Inr [OF key] by (simp add: fields e)
  have 2: "encryptedHeaders r = None \<and> headerNames e = []"
    if "newHeaders params = None \<or> newHeaders params = Some []"
    using that encryptHeadersParam_Inr [OF hdr] by (auto simp: fields e)
  have 3: "\<exists>k. k \<noteq> [] \<and> newApiKey params = Some k \<and> encryptSecret svc k = Some c"
    if "encryptedApiKey r = Some c" for c
  proof (cases "newApiKey params")
    case None
    with that encryptApiKeyParam_Inr [OF key] show ?thesis by (simp add: fields)
  next
    case (Some k)
    with that encryptApiKeyParam_Inr [OF key] show ?thesis
      by (cases "k = []") (auto simp: fields)
  qed
  have 4: "\<exists>h. h \<noteq> [] \<and> newHeaders params = Some h
                   \<and> encryptSecret svc (jsonStringify svc h) = Some c"
    if "encryptedHeaders r = Some c" for c
  proof (cases "newHeaders params")
    case None
    with that encryptHeadersParam_Inr [OF hdr] show ?thesis by (simp add: fields)
  next
    case (Some h)
    with that encryptHeadersParam_Inr [OF hdr] show ?thesis
      by (cases "h = []") (auto simp: fields)
  qed
  from 1 2 3 4 d' show "\<exists>r. d' = d @ [r]
           \<and> (\<not> truthy (newApiKey params) \<longrightarrow> encryptedApiKey r = None \<and> \<not> hasApiKey e)
           \<and> (newHeaders params = None \<or> newHeaders params = Some [] \<longrightarrow>
                encryptedHeaders r = None \<and> headerNames e = [])
           \<and> (\<forall>c. encryptedApiKey r = Some c \<longrightarrow>
                (\<exists>k. k \<noteq> [] \<and> newApiKey params = Some k \<and> encryptSecret svc k = Some c))
           \<and> (\<forall>c. encryptedHeaders r = Some c \<longrightarrow>
                (\<exists>h. h \<noteq> [] \<and> newHeaders params = Some h
                   \<and> encryptSecret svc (jsonStringify svc h) = Some c))"
    unfolding r_def [symmetric] by blast
qed

text \<open>
  The request with an empty key and an empty header mapping: the creation succeeds, stores
  no blob, and does not depend on the cipher.
\<close>

theorem create_treats_empty_secret_as_absent_witness:
  "\<not> truthy (newApiKey emptyKeyParams) \<and> newHeaders emptyKeyParams = Some []
   \<and> fst (createCustomEndpoint demoServices 5 [] emptyKeyParams)
       = Inr (\<lparr>ident = ''ep2'', workspaceId = ''W'', name = ''gpu-1'',
               baseUrl = ''https://gpu:8000'', createdBy = Some ''u1'', createdAt = 5,
               updatedAt = 5, apiType = OpenAI, hasApiKey = False, headerNames = []\<rparr>,
              [newRow 5 emptyKeyParams None None])
   \<and> createCustomEndpoint (demoServices\<lparr>encryptSecret := (\<lambda>s. None)\<rparr>) 5 [] emptyKeyParams
       = createCustomEndpoint demoServices 5 [] emptyKeyParams
   \<and> (\<exists>r. [newRow 5 emptyKeyParams None None] = [] @ [r]
         \<and> encryptedApiKey r = None \<and> encryptedHeaders r = None)"
proof -
  have pre: "\<not> truthy (newApiKey emptyKeyParams)" "newHeaders emptyKeyParams = Some []"
    by (simp_all add: emptyKeyParams_def)
  have ok: "fst (createCustomEndpoint demoServices 5 [] emptyKeyParams)
       = Inr (\<lparr>ident = ''ep2'', workspaceId = ''W'', name = ''gpu-1'',
               baseUrl = ''https://gpu:8000'', createdBy = Some ''u1'', createdAt = 5,
               updatedAt = 5, apiType = OpenAI, hasApiKey = False, headerNames = []\<rparr>,
              [newRow 5 emptyKeyParams None None])"
    by (simp add: createCustomEndpoint_def emptyKeyParams_def encryptApiKeyParam_def
        encryptHeadersParam_def objectKeys_def dbInsert_def constraintViolation_def
        primaryKey_def uniqueWorkspaceName_def newRow_def)
  note inst = create_treats_empty_secret_as_absent [of demoServices 5 "[]" emptyKeyParams
      "\<lparr>ident = ''ep2'', workspaceId = ''W'', name = ''gpu-1'',
               baseUrl = ''https://gpu:8000'', createdBy = Some ''u1'', createdAt = 5,
               updatedAt = 5, apiType = OpenAI, hasApiKey = False, headerNames = []\<rparr>"
      "[newRow 5 emptyKeyParams None None]"]
  from inst pre have a:
    "createCustomEndpoint (demoServices\<lparr>encryptSecret := (\<lambda>s. None)\<rparr>) 5 [] emptyKeyParams
       = createCustomEndpoint demoServices 5 [] emptyKeyParams"
    by blast
  from inst pre ok have b: "\<exists>r. [newRow 5 emptyKeyParams None None] = [] @ [r]
         \<and> encryptedApiKey r = None \<and> encryptedHeaders r = None"
    by blast
  from pre ok a b show ?thesis by blast
qed

text \<open>
  The last sentence of the claim as stated, that no endpoint is ever stored with an
  encrypted empty-string secret, fails on the update path: \<open>update(id, {apiKey: ''})\<close>
  encrypts the empty string and stores the blob.
\<close>

theorem update_stores_encrypted_empty_key_counterexample:
  "encryptSecret demoServices '''' = Some ''enc:''
   \<and> map_sum id snd
        (fst (updateCustomEndpoint demoServices 9 [demoRow] ''ep1''
               (emptyUpdate\<lparr>setApiKey := Some (Value '''')\<rparr>)))
       = Inr [demoRow\<lparr>updatedAt := 9, encryptedApiKey := Some ''enc:''\<rparr>]
   \<and> map_sum id (hasApiKey \<circ> fst)
        (fst (updateCustomEndpoint demoServices 9 [demoRow] ''ep1''
               (emptyUpdate\<lparr>setApiKey := Some (Value '''')\<rparr>)))
       = Inr True"
  by (simp add: updateCustomEndpoint_def emptyUpdate_def demoServices_def demoRow_def
      encryptApiKeyUpdate_def encryptHeadersUpdate_def dbUpdate_def applyUpdates_def
      constraintViolation_def primaryKey_def uniqueWorkspaceName_def recoverHeaderNames_def
      Let_def)

section \<open>Properties of the name check\<close>

lemma filter_unique_tail:
  assumes "uniqueWorkspaceName d"
    and "filter (\<lambda>x. workspaceId x = ws \<and> name x = n) d = r # rest"
  shows "rest = []"
proof -
  have "r \<in> set (filter (\<lambda>x. workspaceId x = ws \<and> name x = n) d)"
    by (simp add: assms(2))
  then have r: "r \<in> set d" "workspaceId r = ws" "name r = n" by auto
  have "filter (\<lambda>x. (workspaceId x, name x) = (workspaceId r, name r)) d = [r]"
    using assms(1) r(1) filter_key_unique [of "\<lambda>x. (workspaceId x, name x)" d r]
    by (simp add: uniqueWorkspaceName_def)
  with assms(2) r show ?thesis by simp
qed

lemma matchingRows_filter:
  "matchingRows d ws n = set (filter (\<lambda>x. workspaceId x = ws \<and> name x = n) d)"
  by (auto simp: matchingRows_def)

lemma isEndpointNameAvailable_iff:
  assumes "uniqueWorkspaceName d" "\<forall>r\<in>set d. ident r \<noteq> []"
  shows "isEndpointNameAvailable d ws n excludeId \<longleftrightarrow>
           matchingRows d ws n = {}
           \<or> (\<exists>r. matchingRows d ws n = {r} \<and> excludeId = Some (ident r))"
proof (cases "filter (\<lambda>x. workspaceId x = ws \<and> name x = n) d")
  case Nil
  then show ?thesis
    by (simp add: isEndpointNameAvailable_def selectByWorkspaceAndName_def matchingRows_filter)
next
  case (Cons r rest)
  with assms(1) have rest: "rest = []" by (rule filter_unique_tail)
  have "r \<in> set (filter (\<lambda>x. workspaceId x = ws \<and> name x = n) d)"
    by (simp add: Cons)
  then have "r \<in> set d" by simp
  with assms(2) have id: "ident r \<noteq> []" by blast
  have m: "matchingRows d ws n = {r}"
    by (simp add: matchingRows_filter Cons rest)
  have "isEndpointNameAvailable d ws n excludeId \<longleftrightarrow> excludeId = Some (ident r)"
    using id by (cases excludeId)
      (auto simp: isEndpointNameAvailable_def selectByWorkspaceAndName_def Cons)
  with m show ?thesis by auto
qed

text \<open>
  Claim C8. For every workspace \<open>ws\<close>, name \<open>n\<close> and optional \<open>excludeId\<close>,
  \<open>isEndpointNameAvailable(ws, n, excludeId?)\<close> is true if and only if no stored row matches
  \<open>(ws, n)\<close>, or the only matching row has id equal to \<open>excludeId\<close>. In particular, after a
  \<open>create\<close> in \<open>ws\<close> that yields id \<open>I\<close>, the created name is not available, and it is
  available when \<open>I\<close> is excluded. (The table satisfies its unique index on workspace and
  name, and endpoint ids, which the route generates, are not empty.)
\<close>

theorem name_available_iff_no_other_match:
  "(uniqueWorkspaceName d \<and> (\<forall>r\<in>set d. ident r \<noteq> []) \<longrightarrow>
      (isEndpointNameAvailable d ws n excludeId \<longleftrightarrow>
         matchingRows d ws n = {}
         \<or> (\<exists>r. matchingRows d ws n = {r} \<and> excludeId = Some (ident r))))
   \<and> (fst (createCustomEndpoint svc now d params) = Inr (e, d') \<and> newId params \<noteq> [] \<longrightarrow>
        \<not> isEndpointNameAvailable d' (newWorkspaceId params) (newName params) None
        \<and> isEndpointNameAvailable d' (newWorkspaceId params) (newName params) (Some (ident e)))"
proof (rule conjI; rule impI)
  assume "uniqueWorkspaceName d \<and> (\<forall>r\<in>set d. ident r \<noteq> [])"
  then show "isEndpointNameAvailable d ws n excludeId \<longleftrightarrow>
         matchingRows d ws n = {}
         \<or> (\<exists>r. matchingRows d ws n = {r} \<and> excludeId = Some (ident r))"
    using isEndpointNameAvailable_iff by blast
next
  assume a: "fst (createCustomEndpoint svc now d params) = Inr (e, d') \<and> newId params \<noteq> []"
  then obtain encKey encHdrs and names :: "string list" where
    d': "d' = d @ [newRow now params encKey encHdrs]"
    and uniq: "uniqueWorkspaceName d'"
    and e: "ident e = newId params"
    by (auto elim: createCustomEndpoint_success)
  define r where "r = newRow now params encKey encHdrs"
  have fields: "workspaceId r = newWorkspaceId params" "name r = newName params"
    "ident r = newId params"
    by (simp_all add: r_def newRow_def)
  have sel: "selectByWorkspaceAndName d' (newWorkspaceId params) (newName params) = [r]"
    using created_row_selected [of d r] uniq by (simp add: d' r_def [symmetric] fields)
  from a show "\<not> isEndpointNameAvailable d' (newWorkspaceId params) (newName params) None
        \<and> isEndpointNameAvailable d' (newWorkspaceId params) (newName params) (Some (ident e))"
    by (simp add: isEndpointNameAvailable_def sel e fields)
qed

theorem name_available_iff_no_other_match_witness:
  "uniqueWorkspaceName [demoRow] \<and> ident demoRow \<noteq> []
   \<and> matchingRows [demoRow] ''W'' ''vllm-1'' = {demoRow}
   \<and> isEndpointNameAvailable [demoRow] ''W'' ''vllm-1'' (Some ''ep1'')
   \<and> \<not> isEndpointNameAvailable [demoRow] ''W'' ''vllm-1'' (Some ''ep7'')
   \<and> \<not> isEndpointNameAvailable [demoRow] ''W'' ''vllm-1'' None
   \<and> isEndpointNameAvailable [demoRow] ''W'' ''gpu-1'' None
   \<and> fst (createCustomEndpoint demoServices 5 [] emptyKeyParams)
       = Inr (\<lparr>ident = ''ep2'', workspaceId = ''W'', name = ''gpu-1'',
               baseUrl = ''https://gpu:8000'', createdBy = Some ''u1'', createdAt = 5,
               updatedAt = 5, apiType = OpenAI, hasApiKey = False, headerNames = []\<rparr>,
              [newRow 5 emptyKeyParams None None])
   \<and> \<not> isEndpointNameAvailable [newRow 5 emptyKeyParams None None] ''W'' ''gpu-1'' None
   \<and> isEndpointNameAvailable [newRow 5 emptyKeyParams None None] ''W'' ''gpu-1'' (Some ''ep2'')"
proof -
  have pre: "uniqueWorkspaceName [demoRow] \<and> (\<forall>r\<in>set [demoRow]. ident r \<noteq> [])"
    by (simp add: uniqueWorkspaceName_def demoRow_def)
  have m: "matchingRows [demoRow] ''W'' ''vllm-1'' = {demoRow}"
    "matchingRows [demoRow] ''W'' ''gpu-1'' = {}"
    by (auto simp: matchingRows_def demoRow_def)
  have i: "ident demoRow = ''ep1''" by (simp add: demoRow_def)
  note inst = name_available_iff_no_other_match [where d = "[demoRow]" and ws = "''W''"]
  note created = name_available_iff_no_other_match [where d = "[]" and svc = demoServices
      and now = 5 and params = emptyKeyParams and d' = "[newRow 5 emptyKeyParams None None]"
      and e = "\<lparr>ident = ''ep2'', workspaceId = ''W'', name = ''gpu-1'',
               baseUrl = ''https://gpu:8000'', createdBy = Some ''u1'', createdAt = 5,
               updatedAt = 5, apiType = OpenAI, hasApiKey = False, headerNames = []\<rparr>"]
  have 1: "isEndpointNameAvailable [demoRow] ''W'' ''vllm-1'' (Some ''ep1'')"
    using inst [where n = "''vllm-1''" and excludeId = "Some ''ep1''"] pre m i by simp
  have 2: "\<not> isEndpointNameAvailable [demoRow] ''W'' ''vllm-1'' (Some ''ep7'')"
    using inst [where n = "''vllm-1''" and excludeId = "Some ''ep7''"] pre m i by simp
  have 3: "\<not> isEndpointNameAvailable [demoRow] ''W'' ''vllm-1'' None"
    using inst [where n = "''vllm-1''" and excludeId = None] pre m i by simp
  have 4: "isEndpointNameAvailable [demoRow] ''W'' ''gpu-1'' None"
    using inst [where n = "''gpu-1''" and excludeId = None] pre m i by simp
  have ok: "fst (createCustomEndpoint demoServices 5 [] emptyKeyParams)
       = Inr (\<lparr>ident = ''ep2'', workspaceId = ''W'', name = ''gpu-1'',
               baseUrl = ''https://gpu:8000'', createdBy = Some ''u1'', createdAt = 5,
               updatedAt = 5, apiType = OpenAI, hasApiKey = False, headerNames = []\<rparr>,
              [newRow 5 emptyKeyParams None None])"
    by (simp add: createCustomEndpoint_def emptyKeyParams_def encryptApiKeyParam_def
        encryptHeadersParam_def objectKeys_def dbInsert_def constraintViolation_def
        primaryKey_def uniqueWorkspaceName_def newRow_def)
  have p: "newId emptyKeyParams = ''ep2''" "newWorkspaceId emptyKeyParams = ''W''"
    "newName emptyKeyParams = ''gpu-1''"
    by (simp_all add: emptyKeyParams_def)
  have 5: "\<not> isEndpointNameAvailable [newRow 5 emptyKeyParams None None] ''W'' ''gpu-1'' None
   \<and> isEndpointNameAvailable [newRow 5 emptyKeyParams None None] ''W'' ''gpu-1'' (Some ''ep2'')"
    using created ok by (simp add: p)
  have "ident demoRow \<noteq> []" by (simp add: i)
  with pre m 1 2 3 4 ok 5 show ?thesis by blast
qed

section \<open>Properties of update\<close>

lemma applyUpdates_ident [simp]: "ident (applyUpdates now a b c e r) = ident r"
  by (simp add: applyUpdates_def)

lemma dbUpdate_stored:
  assumes pk: "primaryKey d" and r: "r \<in> set d" and f: "\<And>x. ident (f x) = ident x"
    and upd: "dbUpdate d (ident r) f = Inr (d', rows)"
  shows "d' = map (\<lambda>x. if x = r then f r else x) d \<and> rows = [f r]"
proof -
  have same: "ident x = ident r \<longleftrightarrow> x = r" if "x \<in> set d" for x
    using pk r that by (auto simp: primaryKey_def dest: inj_on_eq_iff [OF iffD1 [OF distinct_map, THEN conjunct2]])
  define d1 where "d1 = map (\<lambda>x. if ident x = ident r then f x else x) d"
  have d1: "d1 = map (\<lambda>x. if x = r then f r else x) d"
    unfolding d1_def using same by (auto intro!: map_cong)
  from upd have d': "d' = d1" and rows: "rows = filter (\<lambda>x. ident x = ident r) d1"
    by (auto simp: dbUpdate_def d1_def Let_def split: option.splits)
  have ids: "map ident d1 = map ident d"
    unfolding d1_def by (auto simp: f)
  have "f r \<in> set d1" using r unfolding d1 by force
  moreover have "distinct (map ident d1)" using pk by (simp add: ids primaryKey_def)
  ultimately have "filter (\<lambda>x. ident x = ident (f r)) d1 = [f r]"
    by (rule filter_key_unique [rotated])
  with rows have "rows = [f r]" by (simp add: f)
  with d' d1 show ?thesis by simp
qed

lemma encryptApiKeyUpdate_Inr:
  "encryptApiKeyUpdate svc key = Inr newKey \<Longrightarrow>
     (case key of
        None \<Rightarrow> newKey = None
      | Some Null \<Rightarrow> newKey = Some None
      | Some (Value k) \<Rightarrow> (\<exists>c. newKey = Some (Some c) \<and> encryptSecret svc k = Some c))"
  by (auto simp: encryptApiKeyUpdate_def split: option.splits nullable.splits)

lemma encryptHeadersUpdate_Inr:
  "encryptHeadersUpdate svc hs = Inr (newHdrs, hdrNames) \<Longrightarrow>
     (case hs of
        None \<Rightarrow> newHdrs = None \<and> hdrNames = None
      | Some Null \<Rightarrow> newHdrs = Some None \<and> hdrNames = Some []
      | Some (Value h) \<Rightarrow>
          hdrNames = Some (objectKeys h)
          \<and> (if h = [] then newHdrs = Some None
              else (\<exists>c. newHdrs = Some (Some c)
                         \<and> encryptSecret svc (jsonStringify svc h) = Some c)))"
  by (auto simp: encryptHeadersUpdate_def objectKeys_def split: option.splits nullable.splits
      if_splits)

lemma updateCustomEndpoint_success:
  assumes pk: "primaryKey d" and r: "r \<in> set d"
    and ok: "fst (updateCustomEndpoint svc now d (ident r) p) = Inr (e, d')"
  obtains newKey newHdrs hdrNames where
    "encryptApiKeyUpdate svc (setApiKey p) = Inr newKey"
    "encryptHeadersUpdate svc (setHeaders p) = Inr (newHdrs, hdrNames)"
    "d' = map (\<lambda>x. if x = r then applyUpdates now (setName p) (setBaseUrl p) newKey newHdrs r
                    else x) d"
    "hasApiKey e
       = truthy (encryptedApiKey (applyUpdates now (setName p) (setBaseUrl p) newKey newHdrs r))"
    "headerNames e
       = fst (recoverHeaderNames svc hdrNames
               (encryptedHeaders (applyUpdates now (setName p) (setBaseUrl p) newKey newHdrs r)))"
    "updatedAt e = now"
    "name e = name (applyUpdates now (setName p) (setBaseUrl p) newKey newHdrs r)"
    "baseUrl e = baseUrl (applyUpdates now (setName p) (setBaseUrl p) newKey newHdrs r)"
proof -
  from ok obtain newKey where key: "encryptApiKeyUpdate svc (setApiKey p) = Inr newKey"
    by (auto simp: updateCustomEndpoint_def split: sum.splits)
  from ok key obtain newHdrs hdrNames where
    hdr: "encryptHeadersUpdate svc (setHeaders p) = Inr (newHdrs, hdrNames)"
    by (auto simp: updateCustomEndpoint_def split: sum.splits prod.splits)
  define f where "f = applyUpdates now (setName p) (setBaseUrl p) newKey newHdrs"
  from ok key hdr obtain d1 rows where upd: "dbUpdate d (ident r) f = Inr (d1, rows)"
    by (auto simp: updateCustomEndpoint_def f_def split: sum.splits prod.splits)
  have "d1 = map (\<lambda>x. if x = r then f r else x) d \<and> rows = [f r]"
    using pk r _ upd by (rule dbUpdate_stored) (simp add: f_def)
  then have d1: "d1 = map (\<lambda>x. if x = r then f r else x) d" and rows: "rows = [f r]"
    by simp_all
  from ok have res: "e = \<lparr>ident = ident (f r), workspaceId = workspaceId (f r),
         name = name (f r), baseUrl = baseUrl (f r), createdBy = createdBy (f r),
         createdAt = createdAt (f r), updatedAt = updatedAt (f r),
         apiType = apiTypeOrDefault (apiTypeColumn (f r)),
         hasApiKey = truthy (encryptedApiKey (f r)),
         headerNames = fst (recoverHeaderNames svc hdrNames (encryptedHeaders (f r)))\<rparr>"
    and d': "d' = d1"
    using key hdr upd [unfolded f_def]
    by (auto simp: updateCustomEndpoint_def rows f_def case_prod_beta)
  have "updatedAt (f r) = now" by (simp add: f_def applyUpdates_def)
  with res d' d1 key hdr that show thesis by (simp add: f_def)
qed

lemma recoverHeaderNames_value:
  "fst (recoverHeaderNames svc hdrNames stored)
     = (case hdrNames of
          Some names \<Rightarrow> names
        | None \<Rightarrow>
            if truthy stored
            then (case Option.bind (decryptSecret svc (orEmpty stored)) (jsonParse svc) of
                    Some h \<Rightarrow> objectKeys h
                  | None \<Rightarrow> [])
            else [])"
  by (cases stored) (auto simp: recoverHeaderNames_def split: option.splits)

lemma matchingRows_own:
  assumes "uniqueWorkspaceName d" "r \<in> set d"
  shows "matchingRows d (workspaceId r) (name r) = {r}"
proof -
  have "filter (\<lambda>x. (workspaceId x, name x) = (workspaceId r, name r)) d = [r]"
    using assms filter_key_unique [of "\<lambda>x. (workspaceId x, name x)" d r]
    by (simp add: uniqueWorkspaceName_def)
  then show ?thesis by (simp add: matchingRows_filter)
qed

lemma distinct_map_replace:
  "distinct (map g d) \<Longrightarrow> (\<forall>x\<in>set d. x \<noteq> r \<longrightarrow> g x \<noteq> g r') \<Longrightarrow>
   distinct (map (\<lambda>x. g (if x = r then r' else x)) d)"
proof (induction d)
  case Nil
  then show ?case by simp
next
  case (Cons a d)
  then have ih: "distinct (map (\<lambda>x. g (if x = r then r' else x)) d)"
    and fresh: "g a \<notin> g ` set d" and other: "\<forall>x\<in>set d. x \<noteq> r \<longrightarrow> g x \<noteq> g r'"
    by simp_all
  have "g (if a = r then r' else a) \<notin> (\<lambda>x. g (if x = r then r' else x)) ` set d"
  proof (cases "a = r")
    case True
    with fresh have "r \<notin> set d" by auto
    then have "(\<lambda>x. g (if x = r then r' else x)) ` set d = g ` set d"
      by (intro image_cong) auto
    moreover from other \<open>r \<notin> set d\<close> have "g r' \<notin> g ` set d" by force
    ultimately show ?thesis using True by simp
  next
    case False
    with Cons.prems(2) have new: "g a \<noteq> g r'" by simp
    have "g a \<noteq> g (if x = r then r' else x)" if "x \<in> set d" for x
    proof (cases "x = r")
      case True
      with new show ?thesis by simp
    next
      case False
      from that have "g x \<in> g ` set d" by (rule imageI)
      with fresh have "g a \<noteq> g x" by metis
      with False show ?thesis by simp
    qed
    then have "g a \<notin> (\<lambda>x. g (if x = r then r' else x)) ` set d" by blast
    with False show ?thesis by simp
  qed
  with ih show ?case by simp
qed

text \<open>
  An update that keeps the id and the workspace of the row, and gives it a name that no
  other row of the workspace has, violates no constraint: it replaces the one row.
\<close>

lemma dbUpdate_succeeds:
  assumes pk: "primaryKey d" and un: "uniqueWorkspaceName d" and r: "r \<in> set d"
    and f: "\<And>x. ident (f x) = ident x" and ws: "workspaceId (f r) = workspaceId r"
    and free: "matchingRows d (workspaceId r) (name (f r)) \<subseteq> {r}"
  shows "dbUpdate d (ident r) f = Inr (map (\<lambda>x. if x = r then f r else x) d, [f r])"
proof -
  have same: "ident x = ident r \<longleftrightarrow> x = r" if "x \<in> set d" for x
    using pk r that
    by (auto simp: primaryKey_def
        dest: inj_on_eq_iff [OF iffD1 [OF distinct_map, THEN conjunct2]])
  define d1 where "d1 = map (\<lambda>x. if ident x = ident r then f x else x) d"
  have d1: "d1 = map (\<lambda>x. if x = r then f r else x) d"
    unfolding d1_def using same by (auto intro!: map_cong)
  have ids: "map ident d1 = map ident d"
    unfolding d1_def by (auto simp: f)
  then have pk1: "primaryKey d1" using pk by (simp add: primaryKey_def)
  have other: "\<forall>x\<in>set d. x \<noteq> r \<longrightarrow>
      (workspaceId x, name x) \<noteq> (workspaceId (f r), name (f r))"
    using free by (auto simp: matchingRows_def ws)
  have "distinct (map (\<lambda>x. (\<lambda>y. (workspaceId y, name y)) (if x = r then f r else x)) d)"
    using un [unfolded uniqueWorkspaceName_def] other by (rule distinct_map_replace)
  then have un1: "uniqueWorkspaceName d1"
    by (simp add: uniqueWorkspaceName_def d1 o_def)
  have "f r \<in> set d1" using r unfolding d1 by force
  moreover have "distinct (map ident d1)" using pk1 by (simp add: primaryKey_def)
  ultimately have "filter (\<lambda>x. ident x = ident (f r)) d1 = [f r]"
    by (rule filter_key_unique [rotated])
  then have rows: "filter (\<lambda>x. ident x = ident r) d1 = [f r]" by (simp add: f)
  have "constraintViolation d1 = None"
    using pk1 un1 by (simp add: constraintViolation_None)
  then have "dbUpdate d (ident r) f = Inr (d1, filter (\<lambda>x. ident x = ident r) d1)"
    by (simp add: dbUpdate_def d1_def Let_def)
  with rows d1 show ?thesis by simp
qed

lemma encryptApiKeyUpdate_succeeds:
  "\<forall>k. key = Some (Value k) \<longrightarrow> encryptSecret svc k \<noteq> None \<Longrightarrow>
   \<exists>newKey. encryptApiKeyUpdate svc key = Inr newKey"
  by (auto simp: encryptApiKeyUpdate_def split: option.splits nullable.splits)

lemma encryptHeadersUpdate_succeeds:
  "\<forall>h. hs = Some (Value h) \<and> h \<noteq> [] \<longrightarrow> encryptSecret svc (jsonStringify svc h) \<noteq> None \<Longrightarrow>
   \<exists>newHdrs hdrNames. encryptHeadersUpdate svc hs = Inr (newHdrs, hdrNames)"
  by (auto simp: encryptHeadersUpdate_def objectKeys_def split: option.splits nullable.splits)

text \<open>
  Claim C6. For every existing endpoint id, \<open>update(id, partial)\<close> changes a stored field
  only if the field is present in the partial: a present \<open>null\<close> for \<open>apiKey\<close> or \<open>headers\<close>
  clears that secret (the stored blob becomes \<open>null\<close>, \<open>hasApiKey\<close> false, \<open>headerNames\<close>
  empty), an omitted secret is left as stored, and so \<open>update(id, {})\<close> keeps both; when the
  headers are omitted the returned \<open>headerNames\<close> are recovered by decrypting the stored
  blob, and are empty when that fails; \<open>updatedAt\<close> is refreshed by every update. The other
  rows of the table and the columns that no update names are unchanged.

  The update does happen: on a table that satisfies its two constraints, the update of a
  stored endpoint returns its record whenever the encryption of each secret that the
  partial carries as a value succeeds and a name that the partial carries is not the name
  of another endpoint of the same workspace. A partial whose secrets are omitted or \<open>null\<close>
  and that carries no name meets these conditions whatever the services do, so clearing a
  secret and the empty update always succeed. The first part of the statement gives the
  stored row and the returned record of every such result.
\<close>

theorem update_changes_only_present_fields:
  "(primaryKey d \<and> r \<in> set d
      \<and> fst (updateCustomEndpoint svc now d (ident r) p) = Inr (e, d') \<longrightarrow>
      (\<exists>r'. d' = map (\<lambda>x. if x = r then r' else x) d
         \<and> ident r' = ident r \<and> workspaceId r' = workspaceId r \<and> createdBy r' = createdBy r
         \<and> createdAt r' = createdAt r \<and> apiTypeColumn r' = apiTypeColumn r
         \<and> updatedAt r' = now \<and> updatedAt e = now
         \<and> (setName p = None \<longrightarrow> name r' = name r)
         \<and> (\<forall>n. setName p = Some n \<longrightarrow> name r' = n)
         \<and> (setBaseUrl p = None \<longrightarrow> baseUrl r' = baseUrl r)
         \<and> (\<forall>u. setBaseUrl p = Some u \<longrightarrow> baseUrl r' = u)
         \<and> (setApiKey p = None \<longrightarrow> encryptedApiKey r' = encryptedApiKey r)
         \<and> (setApiKey p = Some Null \<longrightarrow> encryptedApiKey r' = None \<and> \<not> hasApiKey e)
         \<and> (\<forall>k. setApiKey p = Some (Value k) \<longrightarrow> encryptedApiKey r' = encryptSecret svc k)
         \<and> (setHeaders p = None \<longrightarrow>
              encryptedHeaders r' = encryptedHeaders r
              \<and> headerNames e =
                  (if truthy (encryptedHeaders r)
                   then (case Option.bind (decryptSecret svc (orEmpty (encryptedHeaders r)))
                                (jsonParse svc) of
                           Some h \<Rightarrow> objectKeys h
                         | None \<Rightarrow> [])
                   else []))
         \<and> (setHeaders p = Some Null \<longrightarrow> encryptedHeaders r' = None \<and> headerNames e = [])
         \<and> (\<forall>h. setHeaders p = Some (Value h) \<longrightarrow>
              headerNames e = objectKeys h
              \<and> encryptedHeaders r'
                  = (if h = [] then None else encryptSecret svc (jsonStringify svc h)))
         \<and> hasApiKey e = truthy (encryptedApiKey r')
         \<and> name e = name r' \<and> baseUrl e = baseUrl r'))
   \<and> (primaryKey d \<and> uniqueWorkspaceName d \<and> r \<in> set d
        \<and> (\<forall>k. setApiKey p = Some (Value k) \<longrightarrow> encryptSecret svc k \<noteq> None)
        \<and> (\<forall>h. setHeaders p = Some (Value h) \<and> h \<noteq> [] \<longrightarrow>
               encryptSecret svc (jsonStringify svc h) \<noteq> None)
        \<and> (\<forall>n. setName p = Some n \<longrightarrow> matchingRows d (workspaceId r) n \<subseteq> {r}) \<longrightarrow>
        (\<exists>e d'. fst (updateCustomEndpoint svc now d (ident r) p) = Inr (e, d')))"
proof (rule conjI; rule impI)
  assume a: "primaryKey d \<and> r \<in> set d
      \<and> fst (updateCustomEndpoint svc now d (ident r) p) = Inr (e, d')"
  then have pk: "primaryKey d" and r: "r \<in> set d"
    and ok: "fst (updateCustomEndpoint svc now d (ident r) p) = Inr (e, d')"
    by simp_all
  from pk r ok obtain newKey newHdrs hdrNames where
    key: "encryptApiKeyUpdate svc (setApiKey p) = Inr newKey"
    and hdr: "encryptHeadersUpdate svc (setHeaders p) = Inr (newHdrs, hdrNames)"
    and d': "d' = map (\<lambda>x. if x = r then applyUpdates now (setName p) (setBaseUrl p) newKey newHdrs r
                    else x) d"
    and e: "hasApiKey e
       = truthy (encryptedApiKey (applyUpdates now (setName p) (setBaseUrl p) newKey newHdrs r))"
    "headerNames e
       = fst (recoverHeaderNames svc hdrNames
               (encryptedHeaders (applyUpdates now (setName p) (setBaseUrl p) newKey newHdrs r)))"
    "updatedAt e = now"
    "name e = name (applyUpdates now (setName p) (setBaseUrl p) newKey newHdrs r)"
    "baseUrl e = baseUrl (applyUpdates now (setName p) (setBaseUrl p) newKey newHdrs r)"
    by (rule updateCustomEndpoint_success)
  define r' where "r' = applyUpdates now (setName p) (setBaseUrl p) newKey newHdrs r"
  note k = encryptApiKeyUpdate_Inr [OF key]
  note h = encryptHeadersUpdate_Inr [OF hdr]
  have fixed: "ident r' = ident r" "workspaceId r' = workspaceId r" "createdBy r' = createdBy r"
    "createdAt r' = createdAt r" "apiTypeColumn r' = apiTypeColumn r" "updatedAt r' = now"
    by (simp_all add: r'_def applyUpdates_def)
  have nm: "setName p = None \<longrightarrow> name r' = name r" "\<forall>n. setName p = Some n \<longrightarrow> name r' = n"
    "setBaseUrl p = None \<longrightarrow> baseUrl r' = baseUrl r"
    "\<forall>u. setBaseUrl p = Some u \<longrightarrow> baseUrl r' = u"
    by (simp_all add: r'_def applyUpdates_def)
  have k1: "setApiKey p = None \<longrightarrow> encryptedApiKey r' = encryptedApiKey r"
    using k by (auto simp: r'_def applyUpdates_def)
  have k2: "setApiKey p = Some Null \<longrightarrow> encryptedApiKey r' = None \<and> \<not> hasApiKey e"
    using k by (auto simp: e r'_def applyUpdates_def)
  have k3: "\<forall>k. setApiKey p = Some (Value k) \<longrightarrow> encryptedApiKey r' = encryptSecret svc k"
    using k by (auto simp: r'_def applyUpdates_def)
  have h1: "setHeaders p = None \<longrightarrow>
              encryptedHeaders r' = encryptedHeaders r
              \<and> headerNames e =
                  (if truthy (encryptedHeaders r)
                   then (case Option.bind (decryptSecret svc (orEmpty (encryptedHeaders r)))
                                (jsonParse svc) of
                           Some h \<Rightarrow> objectKeys h
                         | None \<Rightarrow> [])
                   else [])"
    using h by (auto simp: e recoverHeaderNames_value applyUpdates_def r'_def)
  have h2: "setHeaders p = Some Null \<longrightarrow> encryptedHeaders r' = None \<and> headerNames e = []"
    using h by (auto simp: e recoverHeaderNames_value applyUpdates_def r'_def)
  have h3: "\<forall>h. setHeaders p = Some (Value h) \<longrightarrow>
              headerNames e = objectKeys h
              \<and> encryptedHeaders r'
                  = (if h = [] then None else encryptSecret svc (jsonStringify svc h))"
    using h by (auto simp: e recoverHeaderNames_value applyUpdates_def r'_def)
  have v: "hasApiKey e = truthy (encryptedApiKey r')" "name e = name r'" "baseUrl e = baseUrl r'"
    "updatedAt e = now"
    by (simp_all add: e r'_def)
  have d'': "d' = map (\<lambda>x. if x = r then r' else x) d" by (simp add: d' r'_def)
  from d'' fixed nm k1 k2 k3 h1 h2 h3 v
  show "\<exists>r'. d' = map (\<lambda>x. if x = r then r' else x) d
         \<and> ident r' = ident r \<and> workspaceId r' = workspaceId r \<and> createdBy r' = createdBy r
         \<and> createdAt r' = createdAt r \<and> apiTypeColumn r' = apiTypeColumn r
         \<and> updatedAt r' = now \<and> updatedAt e = now
         \<and> (setName p = None \<longrightarrow> name r' = name r)
         \<and> (\<forall>n. setName p = Some n \<longrightarrow> name r' = n)
         \<and> (setBaseUrl p = None \<longrightarrow> baseUrl r' = baseUrl r)
         \<and> (\<forall>u. setBaseUrl p = Some u \<longrightarrow> baseUrl r' = u)
         \<and> (setApiKey p = None \<longrightarrow> encryptedApiKey r' = encryptedApiKey r)
         \<and> (setApiKey p = Some Null \<longrightarrow> encryptedApiKey r' = None \<and> \<not> hasApiKey e)
         \<and> (\<forall>k. setApiKey p = Some (Value k) \<longrightarrow> encryptedApiKey r' = encryptSecret svc k)
         \<and> (setHeaders p = None \<longrightarrow>
              encryptedHeaders r' = encryptedHeaders r
              \<and> headerNames e =
                  (if truthy (encryptedHeaders r)
                   then (case Option.bind (decryptSecret svc (orEmpty (encryptedHeaders r)))
                                (jsonParse svc) of
                           Some h \<Rightarrow> objectKeys h
                         | None \<Rightarrow> [])
                   else []))
         \<and> (setHeaders p = Some Null \<longrightarrow> encryptedHeaders r' = None \<and> headerNames e = [])
         \<and> (\<forall>h. setHeaders p = Some (Value h) \<longrightarrow>
              headerNames e = objectKeys h
              \<and> encryptedHeaders r'
                  = (if h = [] then None else encryptSecret svc (jsonStringify svc h)))
         \<and> hasApiKey e = truthy (encryptedApiKey r')
         \<and> name e = name r' \<and> baseUrl e = baseUrl r'"
    by (intro exI [of _ r'] conjI) assumption+
next
  assume a: "primaryKey d \<and> uniqueWorkspaceName d \<and> r \<in> set d
        \<and> (\<forall>k. setApiKey p = Some (Value k) \<longrightarrow> encryptSecret svc k \<noteq> None)
        \<and> (\<forall>h. setHeaders p = Some (Value h) \<and> h \<noteq> [] \<longrightarrow>
               encryptSecret svc (jsonStringify svc h) \<noteq> None)
        \<and> (\<forall>n. setName p = Some n \<longrightarrow> matchingRows d (workspaceId r) n \<subseteq> {r})"
  then have pk: "primaryKey d" and un: "uniqueWorkspaceName d" and r: "r \<in> set d"
    and key: "\<forall>k. setApiKey p = Some (Value k) \<longrightarrow> encryptSecret svc k \<noteq> None"
    and hdr: "\<forall>h. setHeaders p = Some (Value h) \<and> h \<noteq> [] \<longrightarrow>
                encryptSecret svc (jsonStringify svc h) \<noteq> None"
    and free: "\<forall>n. setName p = Some n \<longrightarrow> matchingRows d (workspaceId r) n \<subseteq> {r}"
    by simp_all
  from key obtain newKey where k: "encryptApiKeyUpdate svc (setApiKey p) = Inr newKey"
    using encryptApiKeyUpdate_succeeds by blast
  from hdr obtain newHdrs hdrNames where
    h: "encryptHeadersUpdate svc (setHeaders p) = Inr (newHdrs, hdrNames)"
    using encryptHeadersUpdate_succeeds by blast
  define f where "f = applyUpdates now (setName p) (setBaseUrl p) newKey newHdrs"
  have i: "ident (f x) = ident x" for x by (simp add: f_def)
  have w: "workspaceId (f r) = workspaceId r" by (simp add: f_def applyUpdates_def)
  have fr: "matchingRows d (workspaceId r) (name (f r)) \<subseteq> {r}"
  proof (cases "setName p")
    case None
    then have "name (f r) = name r" by (simp add: f_def applyUpdates_def)
    with un r show ?thesis by (simp add: matchingRows_own)
  next
    case (Some n)
    then have "name (f r) = n" by (simp add: f_def applyUpdates_def)
    with free Some show ?thesis by simp
  qed
  have "dbUpdate d (ident r) f = Inr (map (\<lambda>x. if x = r then f r else x) d, [f r])"
    using pk un r i w fr by (rule dbUpdate_succeeds)
  then show "\<exists>e d'. fst (updateCustomEndpoint svc now d (ident r) p) = Inr (e, d')"
    using k h by (simp add: updateCustomEndpoint_def f_def case_prod_beta)
qed


text \<open>
  Two updates of the second example endpoint. Clearing its key: the key blob becomes
  \<open>null\<close>, the header blob stays and its one name is recovered, the other row is
  untouched. Renaming it, moving it, giving it a new key and clearing its headers: the name
  is free and the cipher accepts the key, so the update succeeds, and the stored row and
  the returned record are the ones the theorem gives.
\<close>

theorem update_changes_only_present_fields_witness:
  "primaryKey [demoRow, headerRow] \<and> uniqueWorkspaceName [demoRow, headerRow]
   \<and> headerRow \<in> set [demoRow, headerRow]
   \<and> fst (updateCustomEndpoint demoServices 200 [demoRow, headerRow] ''ep3''
            (emptyUpdate\<lparr>setApiKey := Some Null\<rparr>))
       = Inr (\<lparr>ident = ''ep3'', workspaceId = ''W'', name = ''claude-proxy'',
               baseUrl = ''https://p:9000'', createdBy = None, createdAt = 100,
               updatedAt = 200, apiType = Anthropic, hasApiKey = False,
               headerNames = [''X-Org'']\<rparr>,
              [demoRow, headerRow\<lparr>updatedAt := 200, encryptedApiKey := None\<rparr>])
   \<and> (\<exists>r'. [demoRow, headerRow\<lparr>updatedAt := 200, encryptedApiKey := None\<rparr>]
               = map (\<lambda>x. if x = headerRow then r' else x) [demoRow, headerRow]
          \<and> encryptedApiKey r' = None
          \<and> encryptedHeaders r' = encryptedHeaders headerRow
          \<and> name r' = name headerRow \<and> baseUrl r' = baseUrl headerRow
          \<and> updatedAt r' = 200)
   \<and> matchingRows [demoRow, headerRow] ''W'' ''claude-2'' = {}
   \<and> encryptSecret demoServices ''sk-new'' = Some ''enc:sk-new''
   \<and> (\<exists>e r'. fst (updateCustomEndpoint demoServices 200 [demoRow, headerRow] ''ep3''
                    renameUpdate)
                = Inr (e, [demoRow, r'])
          \<and> ident r' = ''ep3'' \<and> workspaceId r' = ''W'' \<and> createdAt r' = 100
          \<and> name r' = ''claude-2'' \<and> baseUrl r' = ''https://q:9000''
          \<and> encryptedApiKey r' = Some ''enc:sk-new'' \<and> encryptedHeaders r' = None
          \<and> updatedAt r' = 200
          \<and> name e = ''claude-2'' \<and> baseUrl e = ''https://q:9000'' \<and> updatedAt e = 200
          \<and> hasApiKey e \<and> headerNames e = [])
   \<and> (\<exists>e d'. fst (updateCustomEndpoint demoServices 200 [demoRow, headerRow] ''ep3'' emptyUpdate)
                = Inr (e, d'))"
proof -
  have pre: "primaryKey [demoRow, headerRow]" "uniqueWorkspaceName [demoRow, headerRow]"
    "headerRow \<in> set [demoRow, headerRow]"
    by (simp_all add: primaryKey_def uniqueWorkspaceName_def demoRow_def headerRow_def)
  have i: "ident headerRow = ''ep3''" "workspaceId headerRow = ''W''"
    "createdAt headerRow = 100"
    by (simp_all add: headerRow_def)
  have ne: "demoRow \<noteq> headerRow" by (simp add: demoRow_def headerRow_def)
  have p: "setName (emptyUpdate\<lparr>setApiKey := Some Null\<rparr>) = None"
    "setBaseUrl (emptyUpdate\<lparr>setApiKey := Some Null\<rparr>) = None"
    "setApiKey (emptyUpdate\<lparr>setApiKey := Some Null\<rparr>) = Some Null"
    "setHeaders (emptyUpdate\<lparr>setApiKey := Some Null\<rparr>) = None"
    by (simp_all add: emptyUpdate_def)
  have ok: "fst (updateCustomEndpoint demoServices 200 [demoRow, headerRow] ''ep3''
            (emptyUpdate\<lparr>setApiKey := Some Null\<rparr>))
       = Inr (\<lparr>ident = ''ep3'', workspaceId = ''W'', name = ''claude-proxy'',
               baseUrl = ''https://p:9000'', createdBy = None, createdAt = 100,
               updatedAt = 200, apiType = Anthropic, hasApiKey = False,
               headerNames = [''X-Org'']\<rparr>,
              [demoRow, headerRow\<lparr>updatedAt := 200, encryptedApiKey := None\<rparr>])"
    by (simp add: updateCustomEndpoint_def emptyUpdate_def demoServices_def demoRow_def
        headerRow_def encryptApiKeyUpdate_def encryptHeadersUpdate_def dbUpdate_def
        applyUpdates_def constraintViolation_def primaryKey_def uniqueWorkspaceName_def
        recoverHeaderNames_def objectKeys_def Let_def)
  note inst = update_changes_only_present_fields [where d = "[demoRow, headerRow]"
      and r = headerRow and svc = demoServices and now = 200
      and p = "emptyUpdate\<lparr>setApiKey := Some Null\<rparr>"
      and e = "\<lparr>ident = ''ep3'', workspaceId = ''W'', name = ''claude-proxy'',
               baseUrl = ''https://p:9000'', createdBy = None, createdAt = 100,
               updatedAt = 200, apiType = Anthropic, hasApiKey = False,
               headerNames = [''X-Org'']\<rparr>"
      and d' = "[demoRow, headerRow\<lparr>updatedAt := 200, encryptedApiKey := None\<rparr>]"]
  have hyp: "primaryKey [demoRow, headerRow] \<and> headerRow \<in> set [demoRow, headerRow]
      \<and> fst (updateCustomEndpoint demoServices 200 [demoRow, headerRow] (ident headerRow)
            (emptyUpdate\<lparr>setApiKey := Some Null\<rparr>))
       = Inr (\<lparr>ident = ''ep3'', workspaceId = ''W'', name = ''claude-proxy'',
               baseUrl = ''https://p:9000'', createdBy = None, createdAt = 100,
               updatedAt = 200, apiType = Anthropic, hasApiKey = False,
               headerNames = [''X-Org'']\<rparr>,
              [demoRow, headerRow\<lparr>updatedAt := 200, encryptedApiKey := None\<rparr>])"
    using pre ok by (simp add: i)
  have a: "\<exists>r'. [demoRow, headerRow\<lparr>updatedAt := 200, encryptedApiKey := None\<rparr>]
               = map (\<lambda>x. if x = headerRow then r' else x) [demoRow, headerRow]
          \<and> encryptedApiKey r' = None
          \<and> encryptedHeaders r' = encryptedHeaders headerRow
          \<and> name r' = name headerRow \<and> baseUrl r' = baseUrl headerRow
          \<and> updatedAt r' = 200"
    using inst [THEN conjunct1, THEN mp, OF hyp]
    apply (elim exE)
    subgoal for r' by (rule exI [of _ r']) (simp add: p)
    done
  have free: "matchingRows [demoRow, headerRow] ''W'' ''claude-2'' = {}"
    by (simp add: matchingRows_filter demoRow_def headerRow_def)
  have enc: "encryptSecret demoServices ''sk-new'' = Some ''enc:sk-new''"
    by (simp add: demoServices_def)
  have q: "setName renameUpdate = Some ''claude-2''"
    "setBaseUrl renameUpdate = Some ''https://q:9000''"
    "setApiKey renameUpdate = Some (Value ''sk-new'')"
    "setHeaders renameUpdate = Some Null"
    by (simp_all add: renameUpdate_def)
  have hyp3: "primaryKey [demoRow, headerRow] \<and> uniqueWorkspaceName [demoRow, headerRow]
      \<and> headerRow \<in> set [demoRow, headerRow]
      \<and> (\<forall>k. setApiKey renameUpdate = Some (Value k) \<longrightarrow> encryptSecret demoServices k \<noteq> None)
      \<and> (\<forall>h. setHeaders renameUpdate = Some (Value h) \<and> h \<noteq> [] \<longrightarrow>
             encryptSecret demoServices (jsonStringify demoServices h) \<noteq> None)
      \<and> (\<forall>n. setName renameUpdate = Some n \<longrightarrow>
             matchingRows [demoRow, headerRow] (workspaceId headerRow) n \<subseteq> {headerRow})"
    using pre free enc by (simp add: q i)
  from update_changes_only_present_fields [where d = "[demoRow, headerRow]"
      and r = headerRow and svc = demoServices and now = 200 and p = renameUpdate,
      THEN conjunct2, THEN mp, OF hyp3]
  obtain e d' where
    run: "fst (updateCustomEndpoint demoServices 200 [demoRow, headerRow] (ident headerRow)
            renameUpdate) = Inr (e, d')"
    by blast
  have hyp4: "primaryKey [demoRow, headerRow] \<and> headerRow \<in> set [demoRow, headerRow]
      \<and> fst (updateCustomEndpoint demoServices 200 [demoRow, headerRow] (ident headerRow)
            renameUpdate) = Inr (e, d')"
    using pre run by simp
  have b: "\<exists>e r'. fst (updateCustomEndpoint demoServices 200 [demoRow, headerRow] ''ep3''
                    renameUpdate)
                = Inr (e, [demoRow, r'])
          \<and> ident r' = ''ep3'' \<and> workspaceId r' = ''W'' \<and> createdAt r' = 100
          \<and> name r' = ''claude-2'' \<and> baseUrl r' = ''https://q:9000''
          \<and> encryptedApiKey r' = Some ''enc:sk-new'' \<and> encryptedHeaders r' = None
          \<and> updatedAt r' = 200
          \<and> name e = ''claude-2'' \<and> baseUrl e = ''https://q:9000'' \<and> updatedAt e = 200
          \<and> hasApiKey e \<and> headerNames e = []"
    using update_changes_only_present_fields [where d = "[demoRow, headerRow]"
      and r = headerRow and svc = demoServices and now = 200 and p = renameUpdate
      and e = e and d' = d', THEN conjunct1, THEN mp, OF hyp4]
    apply (elim exE)
    subgoal for r'
      using run ne by (intro exI [of _ e] exI [of _ r']) (simp add: q i enc)
    done
  have hyp2: "primaryKey [demoRow, headerRow] \<and> uniqueWorkspaceName [demoRow, headerRow]
      \<and> headerRow \<in> set [demoRow, headerRow]
      \<and> (\<forall>k. setApiKey emptyUpdate = Some (Value k) \<longrightarrow> encryptSecret demoServices k \<noteq> None)
      \<and> (\<forall>h. setHeaders emptyUpdate = Some (Value h) \<and> h \<noteq> [] \<longrightarrow>
             encryptSecret demoServices (jsonStringify demoServices h) \<noteq> None)
      \<and> (\<forall>n. setName emptyUpdate = Some n \<longrightarrow>
             matchingRows [demoRow, headerRow] (workspaceId headerRow) n \<subseteq> {headerRow})"
    using pre by (simp add: emptyUpdate_def)
  have c: "\<exists>e d'. fst (updateCustomEndpoint demoServices 200 [demoRow, headerRow] ''ep3'' emptyUpdate)
                = Inr (e, d')"
    using update_changes_only_present_fields [where d = "[demoRow, headerRow]"
      and r = headerRow and svc = demoServices and now = 200 and p = emptyUpdate,
      THEN conjunct2, THEN mp, OF hyp2]
    by (simp add: i)
  from pre ok a free enc b c show ?thesis by blast
qed

section \<open>Properties of the dispatcher\<close>

lemma selectByWorkspaceAndName_none:
  "matchingRows d ws n = {} \<Longrightarrow> selectByWorkspaceAndName d ws n = []"
  by (simp add: matchingRows_filter selectByWorkspaceAndName_def)

lemma resolveCredentials_missing_endpoint:
  assumes "requestWorkspaceId request = Some ws" "ws \<noteq> []"
    and "endpointName (parseFamily fam (model request)) = n" "n \<noteq> []"
    and "matchingRows d ws n = {}"
  shows "resolveCredentials env svc d (familyPrefix fam) request resolved
           = Inl (endpointNotFoundMessage n)"
proof -
  have none: "fst (getCustomEndpointByName svc d ws n) = None"
    using assms(5) by (simp add: selectByWorkspaceAndName_none getCustomEndpointByName_missing)
  show ?thesis
  proof (cases fam)
    case CustomOpenAI
    with assms none show ?thesis by (simp add: resolveCredentials_def)
  next
    case CustomAnthropic
    with assms none show ?thesis by (simp add: resolveCredentials_def)
  next
    case CustomGoogle
    with assms none show ?thesis by (simp add: resolveCredentials_def)
  qed
qed

text \<open>
  Claim C2. For every request to a custom-family provider (\<open>custom-openai\<close>,
  \<open>custom-anthropic\<close>, \<open>custom-google\<close>) with a workspace id, whose model reference parses to
  a non-empty endpoint name that no endpoint of that workspace has,
  \<open>executeProviderRequest\<close> rejects with an error that names the missing endpoint, and the
  provider's \<open>executeRequest\<close> is never invoked: there is no outbound call and no fall-back
  to a default endpoint. (The registry knows the provider and the provider can execute;
  otherwise the dispatcher has rejected before, also without a call.)
\<close>

theorem missing_endpoint_is_fatal:
  "getProviderExecutor env (familyPrefix fam) = Some provider
   \<and> executeRequest provider = Some exec
   \<and> requestWorkspaceId request = Some ws \<and> ws \<noteq> []
   \<and> endpointName (parseFamily fam (model request)) = n \<and> n \<noteq> []
   \<and> matchingRows d ws n = {} \<longrightarrow>
     executeProviderRequest env svc d (familyPrefix fam) request
       = \<lparr>outcome = Inl (''Custom LLM endpoint \"'' @ n
                          @ ''\" not found. Please configure it in workspace settings.''),
          outboundCalls = []\<rparr>"
proof
  assume a: "getProviderExecutor env (familyPrefix fam) = Some provider
   \<and> executeRequest provider = Some exec
   \<and> requestWorkspaceId request = Some ws \<and> ws \<noteq> []
   \<and> endpointName (parseFamily fam (model request)) = n \<and> n \<noteq> []
   \<and> matchingRows d ws n = {}"
  then have w: "requestWorkspaceId request = Some ws" "ws \<noteq> []"
    "endpointName (parseFamily fam (model request)) = n" "n \<noteq> []" "matchingRows d ws n = {}"
    by simp_all
  have "resolveCredentials env svc d (familyPrefix fam) request (sanitizeRequest env request)
           = Inl (endpointNotFoundMessage n)"
    using w by (rule resolveCredentials_missing_endpoint)
  with a show "executeProviderRequest env svc d (familyPrefix fam) request
       = \<lparr>outcome = Inl (''Custom LLM endpoint \"'' @ n
                          @ ''\" not found. Please configure it in workspace settings.''),
          outboundCalls = []\<rparr>"
    by (simp add: executeProviderRequest_def endpointNotFoundMessage_def)
qed

text \<open>The spec's example: \<open>custom-openai:ghost/gpt-x\<close> in a workspace with no endpoint \<open>ghost\<close>.\<close>

theorem missing_endpoint_is_fatal_witness:
  "getProviderExecutor demoEnv (familyPrefix CustomOpenAI) = Some demoProvider
   \<and> executeRequest demoProvider = Some (\<lambda>request. Inr (Response demoResponse))
   \<and> requestWorkspaceId (demoRequest ''custom-openai:ghost/gpt-x'') = Some ''W''
   \<and> endpointName (parseFamily CustomOpenAI (model (demoRequest ''custom-openai:ghost/gpt-x'')))
       = ''ghost''
   \<and> matchingRows [demoRow] ''W'' ''ghost'' = {}
   \<and> executeProviderRequest demoEnv demoServices [demoRow] ''custom-openai''
        (demoRequest ''custom-openai:ghost/gpt-x'')
       = \<lparr>outcome = Inl ''Custom LLM endpoint \"ghost\" not found. Please configure it in workspace settings.'',
          outboundCalls = []\<rparr>"
proof -
  have 1: "getProviderExecutor demoEnv (familyPrefix CustomOpenAI) = Some demoProvider"
    by (simp add: demoEnv_def)
  have 2: "executeRequest demoProvider = Some (\<lambda>request. Inr (Response demoResponse))"
    by (simp add: demoProvider_def)
  have 3: "requestWorkspaceId (demoRequest ''custom-openai:ghost/gpt-x'') = Some ''W''"
    by (simp add: demoRequest_def)
  have 4: "endpointName (parseFamily CustomOpenAI (model (demoRequest ''custom-openai:ghost/gpt-x'')))
       = ''ghost''"
    by (simp add: demoRequest_def parseCustomOpenAIModel_def replaceAtStart_def slice_def
        sliceFrom_def sliceIndex_def Let_def)
  have 5: "matchingRows [demoRow] ''W'' ''ghost'' = {}"
    by (simp add: matchingRows_def demoRow_def)
  from missing_endpoint_is_fatal [of demoEnv CustomOpenAI demoProvider
      "\<lambda>request. Inr (Response demoResponse)" "demoRequest ''custom-openai:ghost/gpt-x''"
      "''W''" "''ghost''" "[demoRow]" demoServices] 1 2 3 4 5
  have "executeProviderRequest demoEnv demoServices [demoRow] ''custom-openai''
        (demoRequest ''custom-openai:ghost/gpt-x'')
       = \<lparr>outcome = Inl ''Custom LLM endpoint \"ghost\" not found. Please configure it in workspace settings.'',
          outboundCalls = []\<rparr>"
    by simp
  with 1 2 3 4 5 show ?thesis by blast
qed











section \<open>The structured-output step\<close>

text \<open>
  Claim C7 says that an empty-string \<open>responseFormat\<close> is cleared (set to absent) before the
  request reaches the provider. The code tests \<open>if (sanitizedRequest.responseFormat)\<close>
  first, and the empty string is falsy: the inner branch that logs and clears the field is
  never entered. At the request below the provider receives the field as it was sent, the
  empty string; no error is raised and nothing is appended to the system prompt.
\<close>

theorem empty_response_format_reaches_provider:
  "map responseFormat
     (outboundCalls
        (executeProviderRequest demoEnv demoServices [] ''openai''
           ((demoRequest ''gpt-4o'')\<lparr>responseFormat := Some (FormatString '''')\<rparr>)))
     = [Some (FormatString '''')]
   \<and> map systemPrompt
       (outboundCalls
          (executeProviderRequest demoEnv demoServices [] ''openai''
             ((demoRequest ''gpt-4o'')\<lparr>responseFormat := Some (FormatString '''')\<rparr>)))
     = [Some ''You are terse.'']
   \<and> outcome
       (executeProviderRequest demoEnv demoServices [] ''openai''
          ((demoRequest ''gpt-4o'')\<lparr>responseFormat := Some (FormatString '''')\<rparr>))
     = Inr (Response (demoResponse\<lparr>responseCost := Some (zeroCost demoEnv)\<rparr>))"
  by (simp add: executeProviderRequest_def demoEnv_def demoProvider_def demoRequest_def
      resolveCredentials_def sanitizeRequest_def applyResponseFormat_def attachCost_def
      demoResponse_def zeroCost_def Let_def)

section \<open>Properties of the routes\<close>

lemma getCustomEndpointById_absent:
  "\<forall>r\<in>set d. ident r \<noteq> endpointId \<Longrightarrow> fst (getCustomEndpointById svc d endpointId) = None"
proof -
  assume "\<forall>r\<in>set d. ident r \<noteq> endpointId"
  then have "filter (\<lambda>r. ident r = endpointId) d = []"
    by (simp add: filter_empty_conv)
  then show ?thesis by (simp add: getCustomEndpointById_missing selectById_def)
qed

lemma getCustomEndpointById_workspace:
  assumes "primaryKey d" "r \<in> set d"
  shows "\<exists>e. fst (getCustomEndpointById svc d (ident r)) = Some e \<and> workspaceId e = workspaceId r"
  using getCustomEndpointById_found [OF selectById_stored [OF assms], of svc]
  by (simp add: withCredentials_def)

text \<open>
  Claim C9. For every authenticated and permitted request to \<open>GET\<close>, \<open>PATCH\<close> or \<open>DELETE\<close>
  of one endpoint: if the endpoint id does not exist, or exists in a workspace other than
  the one of the path, the response is the same \<open>404 Endpoint not found\<close>, and the table
  is left as it was. An id of another workspace cannot be told from an id that does not
  exist.
\<close>

theorem not_found_hides_other_workspaces:
  "primaryKey d \<and> truthy (sessionUserId ctx)
   \<and> ((\<forall>r\<in>set d. ident r \<noteq> endpointId)
       \<or> (\<exists>r\<in>set d. ident r = endpointId \<and> workspaceId r \<noteq> ws)) \<longrightarrow>
     (getUserEntityPermissions ctx (orEmpty (sessionUserId ctx)) ws \<noteq> None \<longrightarrow>
        GET_endpoint ctx svc d ws endpointId
          = \<lparr>status = 404, body = ErrorBody ''Endpoint not found''\<rparr>)
     \<and> (getUserEntityPermissions ctx (orEmpty (sessionUserId ctx)) ws = Some Admin \<longrightarrow>
        PATCH_endpoint ctx svc now d ws endpointId requestBody
          = (\<lparr>status = 404, body = ErrorBody ''Endpoint not found''\<rparr>, d)
        \<and> DELETE_endpoint ctx svc d ws endpointId
          = (\<lparr>status = 404, body = ErrorBody ''Endpoint not found''\<rparr>, d))"
proof
  assume a: "primaryKey d \<and> truthy (sessionUserId ctx)
   \<and> ((\<forall>r\<in>set d. ident r \<noteq> endpointId)
       \<or> (\<exists>r\<in>set d. ident r = endpointId \<and> workspaceId r \<noteq> ws))"
  then have s: "truthy (sessionUserId ctx)" by simp
  from a consider (absent) "\<forall>r\<in>set d. ident r \<noteq> endpointId"
    | (foreign) r where "primaryKey d" "r \<in> set d" "ident r = endpointId" "workspaceId r \<noteq> ws"
    by blast
  then have look: "fst (getCustomEndpointById svc d endpointId) = None
      \<or> (\<exists>e. fst (getCustomEndpointById svc d endpointId) = Some e \<and> workspaceId e \<noteq> ws)"
  proof cases
    case absent
    then show ?thesis by (simp add: getCustomEndpointById_absent)
  next
    case foreign
    with getCustomEndpointById_workspace [of d r svc] show ?thesis by auto
  qed
  have g: "GET_endpoint ctx svc d ws endpointId
          = \<lparr>status = 404, body = ErrorBody ''Endpoint not found''\<rparr>"
    if "getUserEntityPermissions ctx (orEmpty (sessionUserId ctx)) ws \<noteq> None"
    using that s look by (auto simp: GET_endpoint_def endpointNotFound_def)
  have p: "PATCH_endpoint ctx svc now d ws endpointId requestBody
          = (\<lparr>status = 404, body = ErrorBody ''Endpoint not found''\<rparr>, d)"
    if "getUserEntityPermissions ctx (orEmpty (sessionUserId ctx)) ws = Some Admin"
    using that s look by (auto simp: PATCH_endpoint_def endpointNotFound_def)
  have e: "DELETE_endpoint ctx svc d ws endpointId
          = (\<lparr>status = 404, body = ErrorBody ''Endpoint not found''\<rparr>, d)"
    if "getUserEntityPermissions ctx (orEmpty (sessionUserId ctx)) ws = Some Admin"
    using that s look by (auto simp: DELETE_endpoint_def endpointNotFound_def)
  from g p e show "(getUserEntityPermissions ctx (orEmpty (sessionUserId ctx)) ws \<noteq> None \<longrightarrow>
        GET_endpoint ctx svc d ws endpointId
          = \<lparr>status = 404, body = ErrorBody ''Endpoint not found''\<rparr>)
     \<and> (getUserEntityPermissions ctx (orEmpty (sessionUserId ctx)) ws = Some Admin \<longrightarrow>
        PATCH_endpoint ctx svc now d ws endpointId requestBody
          = (\<lparr>status = 404, body = ErrorBody ''Endpoint not found''\<rparr>, d)
        \<and> DELETE_endpoint ctx svc d ws endpointId
          = (\<lparr>status = 404, body = ErrorBody ''Endpoint not found''\<rparr>, d))"
    by blast
qed

text \<open>
  The example endpoint \<open>ep1\<close> lives in workspace \<open>W\<close>. Asked for in workspace \<open>V\<close>, it is
  answered exactly like the id \<open>nope\<close> that no endpoint has; asked for in \<open>W\<close> it is found.
\<close>

theorem not_found_hides_other_workspaces_witness:
  "primaryKey [demoRow] \<and> truthy (sessionUserId adminContext)
   \<and> ident demoRow = ''ep1'' \<and> workspaceId demoRow \<noteq> ''V'' \<and> ident demoRow \<noteq> ''nope''
   \<and> getUserEntityPermissions adminContext (orEmpty (sessionUserId adminContext)) ''V''
       = Some Admin
   \<and> GET_endpoint adminContext demoServices [demoRow] ''V'' ''ep1''
       = \<lparr>status = 404, body = ErrorBody ''Endpoint not found''\<rparr>
   \<and> GET_endpoint adminContext demoServices [demoRow] ''V'' ''nope''
       = \<lparr>status = 404, body = ErrorBody ''Endpoint not found''\<rparr>
   \<and> PATCH_endpoint adminContext demoServices 200 [demoRow] ''V'' ''ep1'' (Parsed emptyUpdate)
       = (\<lparr>status = 404, body = ErrorBody ''Endpoint not found''\<rparr>, [demoRow])
   \<and> PATCH_endpoint adminContext demoServices 200 [demoRow] ''V'' ''nope'' (Parsed emptyUpdate)
       = (\<lparr>status = 404, body = ErrorBody ''Endpoint not found''\<rparr>, [demoRow])
   \<and> DELETE_endpoint adminContext demoServices [demoRow] ''V'' ''ep1''
       = (\<lparr>status = 404, body = ErrorBody ''Endpoint not found''\<rparr>, [demoRow])
   \<and> DELETE_endpoint adminContext demoServices [demoRow] ''V'' ''nope''
       = (\<lparr>status = 404, body = ErrorBody ''Endpoint not found''\<rparr>, [demoRow])
   \<and> status (GET_endpoint adminContext demoServices [demoRow] ''W'' ''ep1'') = 200
   \<and> DELETE_endpoint adminContext demoServices [demoRow] ''W'' ''ep1''
       = (\<lparr>status = 200, body = SuccessBody\<rparr>, [])"
proof -
  have pre: "primaryKey [demoRow]" "truthy (sessionUserId adminContext)"
    by (simp_all add: primaryKey_def adminContext_def)
  have foreign: "\<exists>r\<in>set [demoRow]. ident r = ''ep1'' \<and> workspaceId r \<noteq> ''V''"
    by (simp add: demoRow_def)
  have absent: "\<forall>r\<in>set [demoRow]. ident r \<noteq> ''nope''"
    by (simp add: demoRow_def)
  have perm: "getUserEntityPermissions adminContext (orEmpty (sessionUserId adminContext)) ''V''
       = Some Admin"
    by (simp add: adminContext_def)
  note inst = not_found_hides_other_workspaces [where d = "[demoRow]" and ctx = adminContext
      and ws = "''V''" and svc = demoServices and now = 200 and requestBody = "Parsed emptyUpdate"]
  have 1: "GET_endpoint adminContext demoServices [demoRow] ''V'' ''ep1''
       = \<lparr>status = 404, body = ErrorBody ''Endpoint not found''\<rparr>
     \<and> PATCH_endpoint adminContext demoServices 200 [demoRow] ''V'' ''ep1'' (Parsed emptyUpdate)
       = (\<lparr>status = 404, body = ErrorBody ''Endpoint not found''\<rparr>, [demoRow])
     \<and> DELETE_endpoint adminContext demoServices [demoRow] ''V'' ''ep1''
       = (\<lparr>status = 404, body = ErrorBody ''Endpoint not found''\<rparr>, [demoRow])"
    using inst [where endpointId = "''ep1''"] pre foreign perm by simp
  have 2: "GET_endpoint adminContext demoServices [demoRow] ''V'' ''nope''
       = \<lparr>status = 404, body = ErrorBody ''Endpoint not found''\<rparr>
     \<and> PATCH_endpoint adminContext demoServices 200 [demoRow] ''V'' ''nope'' (Parsed emptyUpdate)
       = (\<lparr>status = 404, body = ErrorBody ''Endpoint not found''\<rparr>, [demoRow])
     \<and> DELETE_endpoint adminContext demoServices [demoRow] ''V'' ''nope''
       = (\<lparr>status = 404, body = ErrorBody ''Endpoint not found''\<rparr>, [demoRow])"
    using inst [where endpointId = "''nope''"] pre absent perm by simp
  have 3: "status (GET_endpoint adminContext demoServices [demoRow] ''W'' ''ep1'') = 200"
    by (simp add: GET_endpoint_def adminContext_def getCustomEndpointById_def selectById_def
        demoRow_def demoServices_def decryptApiKeyOrLog_def decryptHeadersOrLog_def
        withCredentials_def)
  have 4: "DELETE_endpoint adminContext demoServices [demoRow] ''W'' ''ep1''
       = (\<lparr>status = 200, body = SuccessBody\<rparr>, [])"
    by (simp add: DELETE_endpoint_def adminContext_def getCustomEndpointById_def selectById_def
        demoRow_def demoServices_def decryptApiKeyOrLog_def decryptHeadersOrLog_def
        withCredentials_def deleteCustomEndpoint_def dbDelete_def)
  have row: "ident demoRow = ''ep1''" "workspaceId demoRow \<noteq> ''V''" "ident demoRow \<noteq> ''nope''"
    by (simp_all add: demoRow_def)
  from pre row perm 1 2 3 4 show ?thesis by blast
qed

end
